theory Spec2Isabelle
  imports Main
begin

section \<open>JavaScript strings and the string operations the code calls\<close>

text \<open>
  A JavaScript string is a sequence of UTF-16 code units. A code unit is modelled as a
  natural number (the values below 65536 are the code units; no function below depends on
  the bound), so that \<open>length\<close> counts what \<open>String.prototype.length\<close> counts and
  a character beyond ASCII, such as the bullet of a jest report, is one element.
  \<open>js\<close> reads an ASCII literal of this file as a JavaScript string.
\<close>

type_synonym jschar = nat
type_synonym jsstring = "jschar list"

definition js :: "string \<Rightarrow> jsstring" where
  "js s = map of_char s"

text \<open>\<open>s.includes(t)\<close>: \<open>t\<close> occurs in \<open>s\<close> as a contiguous run of code units.\<close>

fun startsWith :: "jsstring \<Rightarrow> jsstring \<Rightarrow> bool" where
  "startsWith s [] = True"
| "startsWith [] (b # t) = False"
| "startsWith (a # s) (b # t) = (a = b \<and> startsWith s t)"

fun "includes" :: "jsstring \<Rightarrow> jsstring \<Rightarrow> bool" where
  "includes [] t = startsWith [] t"
| "includes (a # s) t = (startsWith (a # s) t \<or> includes s t)"

text \<open>\<open>s.indexOf(t)\<close>: the first position at which \<open>t\<close> occurs, or -1.\<close>

fun indexOf_from :: "nat \<Rightarrow> jsstring \<Rightarrow> jsstring \<Rightarrow> int" where
  "indexOf_from i [] t = (if startsWith [] t then int i else -1)"
| "indexOf_from i (a # s) t =
     (if startsWith (a # s) t then int i else indexOf_from (Suc i) s t)"

definition indexOf :: "jsstring \<Rightarrow> jsstring \<Rightarrow> int" where
  "indexOf s t = indexOf_from 0 s t"

text \<open>
  \<open>s.substring(a, b)\<close>: both indices are clamped to \<open>[0, length]\<close> and swapped when
  the first is the larger.
\<close>

definition substring :: "jsstring \<Rightarrow> int \<Rightarrow> int \<Rightarrow> jsstring" where
  "substring s a b =
     (let n = int (length s);
          a' = max 0 (min n a);
          b' = max 0 (min n b);
          lo = min a' b';
          hi = max a' b'
      in take (nat (hi - lo)) (drop (nat lo) s))"

section \<open>Regular expressions\<close>

text \<open>
  The syntax tree of the regular-expression literals of the catalog. They use literal
  text, the atoms \<open>.\<close>, \<open>\s\<close>, \<open>\d\<close> and character classes, the quantifier \<open>+\<close>
  (on atoms only), the quantifier \<open>?\<close>, groups, concatenation and alternation.
  A literal character of a class or of a text run is ASCII and is written as a \<open>char\<close>;
  \<open>Lit\<close> carries a literal code unit of any value.
\<close>

datatype citem = CChar char | CRange char char

datatype atom = Lit jschar | Dot | WS | Digit | Cls bool "citem list"

datatype regex =
    Txt string
  | Atom atom
  | Plus atom
  | Opt regex
  | Group regex
  | NGroup regex
  | Cat "regex list"
  | Alt "regex list"

text \<open>A regular-expression object: its pattern and its flags (\<open>/pattern/flags\<close>).\<close>

datatype regexp = RegExp regex string

text \<open>
  Without the \<open>u\<close> flag, \<open>Canonicalize\<close> maps a code unit to its upper case under the
  \<open>i\<close> flag, unless that would turn a code unit from 128 on into an ASCII one. Every
  literal of the catalog is ASCII or has no case mapping (the bullet and the angle quote
  of the last test pattern), and a code unit from 128 on never canonicalizes to an ASCII
  one, so the comparison \<open>Canonicalize a = Canonicalize c\<close> with a catalog literal
  \<open>a\<close> depends on the mapping of the ASCII letters only, which is what is written here.
\<close>

definition Canonicalize :: "bool \<Rightarrow> jschar \<Rightarrow> jschar" where
  "Canonicalize ic c = (if ic \<and> 97 \<le> c \<and> c \<le> 122 then c - 32 else c)"

text \<open>The other ASCII letter with the same canonical form, if any.\<close>

definition othercase :: "jschar \<Rightarrow> jschar" where
  "othercase c =
     (if 97 \<le> c \<and> c \<le> 122 then c - 32
      else if 65 \<le> c \<and> c \<le> 90 then c + 32
      else c)"

text \<open>\<open>\s\<close> matches the WhiteSpace and LineTerminator code units of ECMAScript.\<close>

definition isWhiteSpace :: "jschar \<Rightarrow> bool" where
  "isWhiteSpace c =
     (c \<in> {9, 10, 11, 12, 13, 32, 160, 5760, 8232, 8233, 8239, 8287, 12288, 65279}
      \<or> (8192 \<le> c \<and> c \<le> 8202))"

definition isLineTerminator :: "jschar \<Rightarrow> bool" where
  "isLineTerminator c = (c \<in> {10, 13, 8232, 8233})"

text \<open>
  A class member matches when some code unit it denotes has the canonical form of the
  input; for a range, that is the input or its other case lying in the range.
\<close>

fun citem_ok :: "bool \<Rightarrow> citem \<Rightarrow> jschar \<Rightarrow> bool" where
  "citem_ok ic (CChar a) c = (Canonicalize ic (of_char a) = Canonicalize ic c)"
| "citem_ok ic (CRange lo hi) c =
     ((of_char lo \<le> c \<and> c \<le> of_char hi)
      \<or> (ic \<and> of_char lo \<le> othercase c \<and> othercase c \<le> of_char hi))"

fun atom_ok :: "bool \<Rightarrow> atom \<Rightarrow> jschar \<Rightarrow> bool" where
  "atom_ok ic (Lit a) c = (Canonicalize ic a = Canonicalize ic c)"
| "atom_ok ic Dot c = (\<not> isLineTerminator c)"
| "atom_ok ic WS c = isWhiteSpace c"
| "atom_ok ic Digit c = (48 \<le> c \<and> c \<le> 57)"
| "atom_ok ic (Cls negated items) c = (list_ex (\<lambda>it. citem_ok ic it c) items \<noteq> negated)"

text \<open>
  The backtracking matcher, as the list of its successes: \<open>ends ic r s\<close> lists, in the
  order in which backtracking tries them, the rests of \<open>s\<close> after each way of matching
  \<open>r\<close> at the start of \<open>s\<close>. Quantifiers are greedy: \<open>+\<close> tries the longest run first,
  \<open>?\<close> tries one occurrence before none; an alternation tries its branches from left
  to right.
\<close>

fun txt_ends :: "bool \<Rightarrow> string \<Rightarrow> jsstring \<Rightarrow> jsstring list" where
  "txt_ends ic [] s = [s]"
| "txt_ends ic (a # t) [] = []"
| "txt_ends ic (a # t) (c # s) =
     (if Canonicalize ic (of_char a) = Canonicalize ic c then txt_ends ic t s else [])"

fun plus_ends :: "bool \<Rightarrow> atom \<Rightarrow> jsstring \<Rightarrow> jsstring list" where
  "plus_ends ic a [] = []"
| "plus_ends ic a (c # s) = (if atom_ok ic a c then plus_ends ic a s @ [s] else [])"

fun ends :: "bool \<Rightarrow> regex \<Rightarrow> jsstring \<Rightarrow> jsstring list" where
  "ends ic (Txt t) s = txt_ends ic t s"
| "ends ic (Atom a) s =
     (case s of [] \<Rightarrow> [] | c # s' \<Rightarrow> if atom_ok ic a c then [s'] else [])"
| "ends ic (Plus a) s = plus_ends ic a s"
| "ends ic (Opt r) s = ends ic r s @ [s]"
| "ends ic (Group r) s = ends ic r s"
| "ends ic (NGroup r) s = ends ic r s"
| "ends ic (Cat []) s = [s]"
| "ends ic (Cat (r # rs)) s = concat (map (ends ic (Cat rs)) (ends ic r s))"
| "ends ic (Alt rs) s = concat (map (\<lambda>r. ends ic r s) rs)"

text \<open>
  \<open>exec_from\<close> tries the start positions from left to right and returns, for the first
  position with a success, the input from that position and the rest after the first
  success there.
\<close>

fun exec_from :: "bool \<Rightarrow> regex \<Rightarrow> jsstring \<Rightarrow> (jsstring \<times> jsstring) option" where
  "exec_from ic r [] = (case ends ic r [] of [] \<Rightarrow> None | e # _ \<Rightarrow> Some ([], e))"
| "exec_from ic r (c # s) =
     (case ends ic r (c # s) of
        [] \<Rightarrow> exec_from ic r s
      | e # _ \<Rightarrow> Some (c # s, e))"

text \<open>
  \<open>s.match(regex)\<close> for a regular expression without the \<open>g\<close> flag: \<open>null\<close> (here
  \<open>None\<close>) when there is no match, else the match array, of which the code reads the
  element 0 only, the matched text. The flag \<open>i\<close> makes the match ignore case.
\<close>

fun String_match :: "jsstring \<Rightarrow> regexp \<Rightarrow> jsstring option" where
  "String_match s (RegExp r flags) =
     (case exec_from (CHR ''i'' \<in> set flags) r s of
        None \<Rightarrow> None
      | Some (at, rest) \<Rightarrow> Some (take (length at - length rest) at))"

text \<open>
  \<open>regex.toString()\<close>: the source text of the literal between slashes, then the flags.
  A syntax character that stands for itself is written with a backslash.
\<close>

definition syntax_chars :: string where
  "syntax_chars = ''/.()[]{}?+*|^$'' @ [CHR 0x5C]"

fun text_source :: "string \<Rightarrow> string" where
  "text_source [] = []"
| "text_source (a # t) =
     (if a \<in> set syntax_chars then CHR 0x5C # a # text_source t else a # text_source t)"

fun citem_source :: "citem \<Rightarrow> string" where
  "citem_source (CChar a) = [a]"
| "citem_source (CRange lo hi) = [lo, CHR ''-'', hi]"

text \<open>Inside a class, a hyphen that is not the last member is written with a backslash.\<close>

fun class_source :: "citem list \<Rightarrow> string" where
  "class_source [] = []"
| "class_source [it] = citem_source it"
| "class_source (it # its) =
     (if it = CChar (CHR ''-'') then [CHR 0x5C, CHR ''-''] else citem_source it)
     @ class_source its"

fun atom_source :: "atom \<Rightarrow> jsstring" where
  "atom_source (Lit a) = [a]"
| "atom_source Dot = js ''.''"
| "atom_source WS = js [CHR 0x5C, CHR ''s'']"
| "atom_source Digit = js [CHR 0x5C, CHR ''d'']"
| "atom_source (Cls negated items) =
     js (''['' @ (if negated then ''^'' else '''') @ class_source items @ '']'')"

fun intersperse :: "'a list \<Rightarrow> 'a list list \<Rightarrow> 'a list" where
  "intersperse sep [] = []"
| "intersperse sep [x] = x"
| "intersperse sep (x # y # xs) = x @ sep @ intersperse sep (y # xs)"

fun regex_source :: "regex \<Rightarrow> jsstring" where
  "regex_source (Txt t) = js (text_source t)"
| "regex_source (Atom a) = atom_source a"
| "regex_source (Plus a) = atom_source a @ js ''+''"
| "regex_source (Opt r) = regex_source r @ js ''?''"
| "regex_source (Group r) = js ''('' @ regex_source r @ js '')''"
| "regex_source (NGroup r) = js ''(?:'' @ regex_source r @ js '')''"
| "regex_source (Cat rs) = concat (map regex_source rs)"
| "regex_source (Alt rs) = intersperse (js ''|'') (map regex_source rs)"

fun toString :: "regexp \<Rightarrow> jsstring" where
  "toString (RegExp r flags) = js ''/'' @ regex_source r @ js ''/'' @ js flags"

section \<open>Data model\<close>

text \<open>The platforms of \<open>CIPlatform\<close>, and the enumerations and interfaces of \<open>types.ts\<close>.\<close>

datatype CIPlatform = github | aws | gitlab | circleci

datatype FailureType =
  TEST | BUILD | DEPENDENCY | RESOURCE | NETWORK | PERMISSION | CONFIGURATION | TIMEOUT | UNKNOWN

datatype FailureSeverity = LOW | MEDIUM | HIGH | CRITICAL

record FailurePattern =
  type :: FailureType
  severity :: FailureSeverity
  patterns :: "regexp list"
  description :: string

record FailureFix =
  type :: FailureType
  description :: string
  fixScript :: "string option"
  manualSteps :: "string list option"
  platformSpecific :: "bool option"
  platforms :: "CIPlatform list option"

record DetectedFailure =
  type :: FailureType
  severity :: FailureSeverity
  message :: jsstring
  matchedPattern :: jsstring
  description :: string
  location :: "jsstring option"

record FixSuggestion =
  failure :: DetectedFailure
  "fixes" :: "FailureFix list"
  autoFixPossible :: bool
  confidence :: int

record SelfHealingOptions =
  autoRetry :: bool
  maxRetries :: nat
  retryDelay :: nat
  autoFix :: bool
  notifyOnFailure :: bool
  collectLogs :: bool
  platform :: CIPlatform

definition DEFAULT_SELF_HEALING_OPTIONS :: SelfHealingOptions where
  "DEFAULT_SELF_HEALING_OPTIONS =
     \<lparr>autoRetry = True, maxRetries = 3, retryDelay = 60, autoFix = False,
      notifyOnFailure = True, collectLogs = True, platform = github\<rparr>"

section \<open>The catalog of failure patterns\<close>

text \<open>
  \<open>FAILURE_PATTERNS\<close> and \<open>PLATFORM_FAILURE_PATTERNS\<close> of \<open>failure-patterns.ts\<close>,
  entry by entry and in the order of the source.
\<close>

definition FAILURE_PATTERNS :: "FailurePattern list" where
  "FAILURE_PATTERNS = [
    \<lparr>FailurePattern.type = TEST, FailurePattern.severity = MEDIUM,
     patterns = [
       RegExp (Cat [Txt ''test'', Opt (Group (Txt ''s'')), Plus WS, Txt ''failed'']) ''i'',
       RegExp (Cat [Txt ''failing'', Plus WS, Txt ''test'', Opt (Group (Txt ''s''))]) ''i'',
       RegExp (Cat [Txt ''assertion'', Plus WS, Txt ''failed'']) ''i'',
       RegExp (Cat [Txt ''expect'', Opt (Group (Txt ''ed'')), Plus Dot, Txt ''to'', Plus WS,
           Group (Alt [Txt ''equal'', Txt ''be'', Txt ''include'', Txt ''contain'',
           Txt ''have''])]) ''i'',
       RegExp (Txt ''AssertionError'') ''i'',
       RegExp (Cat [Txt ''Error:'', Plus WS, Txt ''Test'', Plus WS, Txt ''suite'', Plus WS,
           Txt ''failed'', Plus WS, Txt ''to'', Plus WS, Txt ''run'']) ''i'',
       RegExp (Cat [Txt ''FAIL'', Plus WS, Plus (Cls False [CRange (CHR ''a'') (CHR ''z''),
           CRange (CHR ''A'') (CHR ''Z''), CRange (CHR ''0'') (CHR ''9''), CChar (CHR ''_''),
           CChar (CHR ''.''), CChar (CHR ''/''), CChar (CHR ''-'')]), Plus WS, Txt ''('',
           Plus Digit, Txt ''.'', Plus Digit, Txt ''s)'']) ''i'',
       RegExp (Cat [Txt ''FAIL'', Plus WS, Txt ''src/components/Button.test.js'']) ''i'',
       RegExp (Txt ''expect(jest.fn()).toHaveBeenCalledTimes(1)'') ''i'',
       RegExp (Cat [Atom (Lit 9679), Txt '' Button component '', Atom (Lit 8250),
           Txt '' handles click events'']) ''i''],
     FailurePattern.description = ''One or more tests failed during execution''\<rparr>,
    \<lparr>FailurePattern.type = TEST, FailurePattern.severity = LOW,
     patterns = [
       RegExp (Cat [Txt ''intermittent'', Plus WS, Txt ''test'', Plus WS, Txt ''failure'']) ''i'',
       RegExp (Cat [Txt ''flaky'', Plus WS, Txt ''test'']) ''i'',
       RegExp (Cat [Txt ''test'', Plus WS, Txt ''sometimes'', Plus WS, Txt ''fails'']) ''i'',
       RegExp (Cat [Txt ''timeout'', Plus WS, Txt ''exceeded'', Plus WS, Txt ''waiting'', Plus WS,
           Txt ''for'']) ''i'',
       RegExp (Cat [Txt ''async'', Plus WS, Txt ''callback'', Plus WS, Txt ''was'', Plus WS,
           Txt ''not'', Plus WS, Txt ''invoked'', Plus WS, Txt ''within'', Plus WS, Txt ''the'',
           Plus WS, Plus Digit, Txt ''ms'', Plus WS, Txt ''timeout'']) ''i'',
       RegExp (Cat [Txt ''element'', Plus WS, Txt ''not'', Plus WS, Txt ''found'']) ''i'',
       RegExp (Cat [Txt ''element'', Plus WS, Txt ''not'', Plus WS, Txt ''visible'']) ''i''],
     FailurePattern.description = ''Tests appear to be flaky or timing-dependent''\<rparr>,
    \<lparr>FailurePattern.type = BUILD, FailurePattern.severity = HIGH,
     patterns = [
       RegExp (Cat [Txt ''build'', Plus WS, Txt ''failed'']) ''i'',
       RegExp (Cat [Txt ''compilation'', Plus WS, Txt ''failed'']) ''i'',
       RegExp (Cat [Txt ''cannot'', Plus WS, Txt ''find'', Plus WS, Txt ''module'']) ''i'',
       RegExp (Cat [Txt ''module'', Plus WS, Txt ''not'', Plus WS, Txt ''found'']) ''i'',
       RegExp (Cat [Txt ''import'', Plus WS, Txt ''error'']) ''i'',
       RegExp (Cat [Txt ''syntax'', Plus WS, Txt ''error'']) ''i'',
       RegExp (Cat [Txt ''error'', Plus WS, Txt ''TS'', Plus Digit]) ''i'',
       RegExp (Cat [Txt ''error'', Plus WS, Txt ''C'', Plus Digit]) ''i'',
       RegExp (Cat [Txt ''error'', Plus WS, Txt ''MSB'', Plus Digit]) ''i'',
       RegExp (Cat [Txt ''error'', Plus WS, Txt ''NETSDK'', Plus Digit]) ''i'',
       RegExp (Cat [Txt ''error'', Plus WS, Txt ''CS'', Plus Digit]) ''i'',
       RegExp (Cat [Txt ''error'', Plus WS, Txt ''LNK'', Plus Digit]) ''i'',
       RegExp (Cat [Txt ''error:'', Plus WS, Atom (Lit 39), Plus (Cls True [CChar (CHR 0x27)]),
           Atom (Lit 39), Plus WS, Txt ''is'', Plus WS, Txt ''not'', Plus WS, Txt ''a'', Plus WS,
           Txt ''member'', Plus WS, Txt ''of'', Plus WS, Atom (Lit 39),
           Plus (Cls True [CChar (CHR 0x27)]), Atom (Lit 39)]) ''i'',
       RegExp (Cat [Txt ''error:'', Plus WS, Txt ''use'', Plus WS, Txt ''of'', Plus WS,
           Txt ''undeclared'', Plus WS, Txt ''identifier'']) ''i'',
       RegExp (Cat [Txt ''error:'', Plus WS, Txt ''expected'', Plus WS]) ''i''],
     FailurePattern.description = ''Build or compilation process failed''\<rparr>,
    \<lparr>FailurePattern.type = DEPENDENCY, FailurePattern.severity = HIGH,
     patterns = [
       RegExp (Cat [Txt ''could'', Plus WS, Txt ''not'', Plus WS, Txt ''find'', Plus WS, Txt ''a'',
           Plus WS, Txt ''version'', Plus WS, Txt ''that'', Plus WS, Txt ''satisfies'', Plus WS,
           Txt ''the'', Plus WS, Txt ''requirement'']) ''i'',
       RegExp (Cat [Txt ''could'', Plus WS, Txt ''not'', Plus WS, Txt ''resolve'', Plus WS,
           Txt ''dependencies'']) ''i'',
       RegExp (Cat [Txt ''dependency'', Plus WS, Txt ''resolution'', Plus WS,
           Txt ''failed'']) ''i'',
       RegExp (Cat [Txt ''package'', Plus WS, Txt ''not'', Plus WS, Txt ''found'']) ''i'',
       RegExp (Cat [Txt ''unable'', Plus WS, Txt ''to'', Plus WS, Txt ''resolve'', Plus WS,
           Txt ''dependency'', Plus WS, Txt ''tree'']) ''i'',
       RegExp (Cat [Txt ''npm'', Plus WS, Txt ''ERR!'', Plus WS, Txt ''404'']) ''i'',
       RegExp (Cat [Txt ''pip'', Plus WS, Txt ''install'', Plus WS, Txt ''error'']) ''i'',
       RegExp (Cat [Txt ''failed'', Plus WS, Txt ''to'', Plus WS, Txt ''install'', Plus WS,
           Txt ''dependencies'']) ''i'',
       RegExp (Cat [Txt ''no'', Plus WS, Txt ''matching'', Plus WS, Txt ''version'', Plus WS,
           Txt ''found'', Plus WS, Txt ''for'']) ''i'',
       RegExp (Cat [Txt ''incompatible'', Plus WS, Txt ''dependency'']) ''i'',
       RegExp (Cat [Txt ''version'', Plus WS, Txt ''conflict'']) ''i'',
       RegExp (Cat [Txt ''peer'', Plus WS, Txt ''dependency'', Plus WS, Txt ''conflict'']) ''i'',
       RegExp (Cat [Txt ''requires'', Plus WS, Txt ''peer'', Plus WS, Txt ''dependency'']) ''i'',
       RegExp (Cat [Txt ''npm'', Plus WS, Txt ''ERR!'', Plus WS, Txt ''code'', Plus WS,
           Txt ''ERESOLVE'']) ''i'',
       RegExp (Cat [Txt ''npm'', Plus WS, Txt ''ERR!'', Plus WS, Txt ''ERESOLVE'', Plus WS,
           Txt ''could'', Plus WS, Txt ''not'', Plus WS, Txt ''resolve'', Plus WS,
           Txt ''dependency'', Plus WS, Txt ''tree'']) ''i'',
       RegExp (Cat [Txt ''Could'', Plus WS, Txt ''not'', Plus WS, Txt ''resolve'', Plus WS,
           Txt ''dependency:'']) ''i''],
     FailurePattern.description = ''Issues with dependency resolution or installation''\<rparr>,
    \<lparr>FailurePattern.type = RESOURCE, FailurePattern.severity = HIGH,
     patterns = [
       RegExp (Cat [Txt ''out'', Plus WS, Txt ''of'', Plus WS, Txt ''memory'']) ''i'',
       RegExp (Cat [Txt ''memory'', Plus WS, Txt ''limit'', Plus WS, Txt ''exceeded'']) ''i'',
       RegExp (Cat [Txt ''disk'', Plus WS, Txt ''space'', Plus WS, Txt ''limit'', Plus WS,
           Txt ''exceeded'']) ''i'',
       RegExp (Cat [Txt ''no'', Plus WS, Txt ''space'', Plus WS, Txt ''left'', Plus WS, Txt ''on'',
           Plus WS, Txt ''device'']) ''i'',
       RegExp (Cat [Txt ''resource'', Plus WS, Txt ''exhausted'']) ''i'',
       RegExp (Cat [Txt ''cpu'', Plus WS, Txt ''usage'', Plus WS, Txt ''limit'', Plus WS,
           Txt ''exceeded'']) ''i'',
       RegExp (Cat [Txt ''heap'', Plus WS, Txt ''limit'', Plus WS, Txt ''exceeded'']) ''i'',
       RegExp (Cat [Txt ''JavaScript'', Plus WS, Txt ''heap'', Plus WS, Txt ''out'', Plus WS,
           Txt ''of'', Plus WS, Txt ''memory'']) ''i'',
       RegExp (Cat [Txt ''fatal'', Plus WS, Txt ''error:'', Plus WS, Txt ''Killed'', Plus WS,
           Txt ''process'']) ''i'',
       RegExp (Cat [Txt ''exit'', Plus WS, Txt ''code'', Plus WS, Txt ''137'']) ''i'',
       RegExp (Cat [Txt ''exit'', Plus WS, Txt ''code'', Plus WS, Txt ''143'']) ''i''],
     FailurePattern.description = ''Process ran out of memory, disk space, or other resources''\<rparr>,
    \<lparr>FailurePattern.type = NETWORK, FailurePattern.severity = MEDIUM,
     patterns = [
       RegExp (Cat [Txt ''network'', Plus WS, Txt ''error'']) ''i'',
       RegExp (Cat [Txt ''connection'', Plus WS, Txt ''refused'']) ''i'',
       RegExp (Cat [Txt ''connection'', Plus WS, Txt ''reset'']) ''i'',
       RegExp (Cat [Txt ''connection'', Plus WS, Txt ''timed'', Plus WS, Txt ''out'']) ''i'',
       RegExp (Cat [Txt ''network'', Plus WS, Txt ''timeout'']) ''i'',
       RegExp (Cat [Txt ''failed'', Plus WS, Txt ''to'', Plus WS, Txt ''fetch'']) ''i'',
       RegExp (Cat [Txt ''unable'', Plus WS, Txt ''to'', Plus WS, Txt ''connect'', Plus WS,
           Txt ''to'']) ''i'',
       RegExp (Cat [Txt ''could'', Plus WS, Txt ''not'', Plus WS, Txt ''resolve'', Plus WS,
           Txt ''host'']) ''i'',
       RegExp (Txt ''ECONNREFUSED'') ''i'',
       RegExp (Txt ''ECONNRESET'') ''i'',
       RegExp (Txt ''ETIMEDOUT'') ''i'',
       RegExp (Txt ''ENETUNREACH'') ''i'',
       RegExp (Cat [Txt ''socket'', Plus WS, Txt ''hang'', Plus WS, Txt ''up'']) ''i'',
       RegExp (Cat [Txt ''TLS'', Plus WS, Txt ''handshake'', Plus WS, Txt ''failed'']) ''i'',
       RegExp (Cat [Txt ''SSL'', Plus WS, Txt ''certificate'', Plus WS, Txt ''error'']) ''i''],
     FailurePattern.description = ''Network connectivity issues or service unavailability''\<rparr>,
    \<lparr>FailurePattern.type = PERMISSION, FailurePattern.severity = HIGH,
     patterns = [
       RegExp (Cat [Txt ''permission'', Plus WS, Txt ''denied'']) ''i'',
       RegExp (Txt ''EACCES'') ''i'',
       RegExp (Cat [Txt ''insufficient'', Plus WS, Txt ''permissions'']) ''i'',
       RegExp (Cat [Txt ''not'', Plus WS, Txt ''authorized'']) ''i'',
       RegExp (Cat [Txt ''authorization'', Plus WS, Txt ''failed'']) ''i'',
       RegExp (Cat [Txt ''access'', Plus WS, Txt ''denied'']) ''i'',
       RegExp (Txt ''forbidden'') ''i'',
       RegExp (Cat [Txt ''403'', Plus WS, Txt ''Forbidden'']) ''i'',
       RegExp (Cat [Txt ''401'', Plus WS, Txt ''Unauthorized'']) ''i'',
       RegExp (Cat [Txt ''authentication'', Plus WS, Txt ''failed'']) ''i'',
       RegExp (Cat [Txt ''could'', Plus WS, Txt ''not'', Plus WS, Txt ''authenticate'']) ''i'',
       RegExp (Cat [Txt ''API'', Plus WS, Txt ''key'', Plus WS, Txt ''is'', Plus WS,
           Txt ''invalid'']) ''i'',
       RegExp (Cat [Txt ''token'', Plus WS, Txt ''is'', Plus WS, Txt ''invalid'']) ''i'',
       RegExp (Cat [Txt ''no'', Plus WS, Txt ''such'', Plus WS, Txt ''key'']) ''i''],
     FailurePattern.description = ''Permission or authentication issues''\<rparr>,
    \<lparr>FailurePattern.type = CONFIGURATION, FailurePattern.severity = MEDIUM,
     patterns = [
       RegExp (Cat [Txt ''configuration'', Plus WS, Txt ''error'']) ''i'',
       RegExp (Cat [Txt ''invalid'', Plus WS, Txt ''configuration'']) ''i'',
       RegExp (Cat [Txt ''missing'', Plus WS, Txt ''configuration'']) ''i'',
       RegExp (Cat [Txt ''unknown'', Plus WS, Txt ''option'']) ''i'',
       RegExp (Cat [Txt ''unrecognized'', Plus WS, Txt ''option'']) ''i'',
       RegExp (Cat [Txt ''invalid'', Plus WS, Txt ''option'']) ''i'',
       RegExp (Cat [Txt ''missing'', Plus WS, Txt ''required'', Plus WS, Txt ''option'']) ''i'',
       RegExp (Cat [Txt ''missing'', Plus WS, Txt ''required'', Plus WS, Txt ''parameter'']) ''i'',
       RegExp (Cat [Txt ''missing'', Plus WS, Txt ''required'', Plus WS, Txt ''environment'',
           Plus WS, Txt ''variable'']) ''i'',
       RegExp (Cat [Txt ''environment'', Plus WS, Txt ''variable'', Plus WS, Txt ''not'', Plus WS,
           Txt ''set'']) ''i'',
       RegExp (Cat [Txt ''invalid'', Plus WS, Txt ''yaml'']) ''i'',
       RegExp (Cat [Txt ''invalid'', Plus WS, Txt ''json'']) ''i'',
       RegExp (Cat [Txt ''invalid'', Plus WS, Txt ''syntax'']) ''i'',
       RegExp (Cat [Txt ''could'', Plus WS, Txt ''not'', Plus WS, Txt ''parse'']) ''i'',
       RegExp (Cat [Txt ''unexpected'', Plus WS, Txt ''token'']) ''i''],
     FailurePattern.description = ''Issues with configuration files or settings''\<rparr>,
    \<lparr>FailurePattern.type = TIMEOUT, FailurePattern.severity = MEDIUM,
     patterns = [
       RegExp (Cat [Txt ''timeout'', Plus WS, Txt ''exceeded'']) ''i'',
       RegExp (Cat [Txt ''timed'', Plus WS, Txt ''out'']) ''i'',
       RegExp (Cat [Txt ''timeout'', Plus WS, Txt ''waiting'', Plus WS, Txt ''for'']) ''i'',
       RegExp (Cat [Txt ''execution'', Plus WS, Txt ''timed'', Plus WS, Txt ''out'']) ''i'',
       RegExp (Cat [Txt ''job'', Plus WS, Txt ''exceeded'', Plus WS, Txt ''maximum'', Plus WS,
           Txt ''execution'', Plus WS, Txt ''time'']) ''i'',
       RegExp (Cat [Txt ''task'', Plus WS, Txt ''timed'', Plus WS, Txt ''out'', Plus WS,
           Txt ''after'']) ''i'',
       RegExp (Cat [Txt ''operation'', Plus WS, Txt ''timed'', Plus WS, Txt ''out'']) ''i'',
       RegExp (Txt ''ETIMEDOUT'') ''i'',
       RegExp (Cat [Txt ''timeout'', Plus WS, Txt ''of'', Plus WS, Plus Digit, Txt ''ms'', Plus WS,
           Txt ''exceeded'']) ''i'',
       RegExp (Cat [Txt ''timeout'', Plus WS, Txt ''after'', Plus WS, Plus Digit,
           Txt ''s'']) ''i''],
     FailurePattern.description = ''Process or operation timed out''\<rparr>]"

definition github_FAILURE_PATTERNS :: "FailurePattern list" where
  "github_FAILURE_PATTERNS = [
    \<lparr>FailurePattern.type = PERMISSION, FailurePattern.severity = HIGH,
     patterns = [
       RegExp (Cat [Txt ''refusing'', Plus WS, Txt ''to'', Plus WS, Txt ''allow'', Plus WS,
           Txt ''a'', Plus WS, Group (Alt [Txt ''GitHub App'', Txt ''OAuth App'',
           Txt ''Personal Access Token''])]) ''i'',
       RegExp (Cat [Txt ''permission'', Plus WS, Txt ''to'', Plus WS,
           Plus (Cls False [CRange (CHR ''a'') (CHR ''z''), CRange (CHR ''A'') (CHR ''Z''),
           CRange (CHR ''0'') (CHR ''9''), CChar (CHR ''_''), CChar (CHR ''/''),
           CChar (CHR ''-'')]), Plus WS, Txt ''was'', Plus WS, Txt ''denied'']) ''i'',
       RegExp (Cat [Txt ''workflow'', Plus WS, Txt ''does'', Plus WS, Txt ''not'', Plus WS,
           Txt ''have'', Plus WS, Txt ''permission'', Plus WS, Txt ''to'', Plus WS, Txt ''access'',
           Plus WS, Txt ''the'', Plus WS, Txt ''resource'']) ''i'',
       RegExp (Cat [Txt ''Resource'', Plus WS, Txt ''not'', Plus WS, Txt ''accessible'', Plus WS,
           Txt ''by'', Plus WS, Txt ''integration'']) ''i''],
     FailurePattern.description = ''GitHub Actions permission issues''\<rparr>,
    \<lparr>FailurePattern.type = CONFIGURATION, FailurePattern.severity = MEDIUM,
     patterns = [
       RegExp (Cat [Txt ''Invalid'', Plus WS, Txt ''workflow'', Plus WS, Txt ''file'']) ''i'',
       RegExp (Cat [Txt ''Workflow'', Plus WS, Txt ''is'', Plus WS, Txt ''not'', Plus WS,
           Txt ''valid'']) ''i'',
       RegExp (Cat [Txt ''The'', Plus WS, Txt ''workflow'', Plus WS, Txt ''is'', Plus WS,
           Txt ''not'', Plus WS, Txt ''valid'']) ''i'',
       RegExp (Cat [Txt ''.github/workflows/'', Plus (Cls False [CRange (CHR ''a'') (CHR ''z''),
           CRange (CHR ''A'') (CHR ''Z''), CRange (CHR ''0'') (CHR ''9''), CChar (CHR ''_''),
           CChar (CHR ''-'')]), Txt ''.y'', Opt (Txt ''a''), Txt ''ml:'', Plus WS,
           Txt ''Error'']) ''i''],
     FailurePattern.description = ''GitHub Actions workflow configuration issues''\<rparr>]"

definition gitlab_FAILURE_PATTERNS :: "FailurePattern list" where
  "gitlab_FAILURE_PATTERNS = [
    \<lparr>FailurePattern.type = CONFIGURATION, FailurePattern.severity = MEDIUM,
     patterns = [
       RegExp (Cat [Txt ''.gitlab-ci.y'', Opt (Txt ''a''), Txt ''ml:'', Plus WS,
           Group (Plus (Cls False [CRange (CHR ''a'') (CHR ''z''), CRange (CHR ''A'') (CHR ''Z''),
           CRange (CHR ''0'') (CHR ''9''), CChar (CHR ''_''), CChar (CHR ''-'')])), Txt '':'',
           Plus WS, Txt ''config'', Plus WS, Txt ''error'']) ''i'',
       RegExp (Cat [Txt ''Invalid'', Plus WS, Txt ''configuration'', Plus WS,
           Txt ''format'']) ''i'',
       RegExp (Cat [Txt ''jobs:'', Plus (Cls False [CRange (CHR ''a'') (CHR ''z''),
           CRange (CHR ''A'') (CHR ''Z''), CRange (CHR ''0'') (CHR ''9''), CChar (CHR ''_''),
           CChar (CHR ''-'')]), Plus WS, Txt ''config'', Plus WS, Txt ''should'', Plus WS,
           Txt ''implement'', Plus WS, Txt ''a'', Plus WS, Txt ''script'', Plus WS, Txt ''or'',
           Plus WS, Txt ''a'', Plus WS, Txt ''trigger'']) ''i''],
     FailurePattern.description = ''GitLab CI configuration issues''\<rparr>,
    \<lparr>FailurePattern.type = RESOURCE, FailurePattern.severity = HIGH,
     patterns = [
       RegExp (Cat [Txt ''Runner'', Plus WS, Txt ''system'', Plus WS, Txt ''failure'']) ''i'',
       RegExp (Cat [Txt ''Error:'', Plus WS, Txt ''Job'', Plus WS, Txt ''failed'', Plus WS,
           Txt ''(system'', Plus WS, Txt ''failure)'']) ''i''],
     FailurePattern.description = ''GitLab CI runner resource issues''\<rparr>]"

definition circleci_FAILURE_PATTERNS :: "FailurePattern list" where
  "circleci_FAILURE_PATTERNS = [
    \<lparr>FailurePattern.type = CONFIGURATION, FailurePattern.severity = MEDIUM,
     patterns = [
       RegExp (Cat [Txt ''Error:'', Plus WS, Txt ''Workflow'', Plus WS, Txt ''validation'',
           Plus WS, Txt ''error'']) ''i'',
       RegExp (Cat [Txt ''Error:'', Plus WS, Txt ''Could'', Plus WS, Txt ''not'', Plus WS,
           Txt ''find'', Plus WS, Txt ''a'', Plus WS, Txt ''definition'', Plus WS, Txt ''for'',
           Plus WS, Txt ''job'']) ''i'',
       RegExp (Cat [Txt ''Error:'', Plus WS, Txt ''Unknown'', Plus WS, Txt ''executor'']) ''i''],
     FailurePattern.description = ''CircleCI configuration issues''\<rparr>,
    \<lparr>FailurePattern.type = RESOURCE, FailurePattern.severity = HIGH,
     patterns = [
       RegExp (Cat [Txt ''Error:'', Plus WS, Txt ''Resource'', Plus WS, Txt ''class'', Plus WS,
           Plus (Cls False [CRange (CHR ''a'') (CHR ''z''), CRange (CHR ''A'') (CHR ''Z''),
           CRange (CHR ''0'') (CHR ''9''), CChar (CHR ''_''), CChar (CHR ''-'')]), Plus WS,
           Txt ''is'', Plus WS, Txt ''not'', Plus WS, Txt ''available'']) ''i'',
       RegExp (Cat [Txt ''Error:'', Plus WS, Txt ''No'', Plus WS, Txt ''available'', Plus WS,
           Txt ''resource'', Plus WS, Txt ''found'']) ''i''],
     FailurePattern.description = ''CircleCI resource issues''\<rparr>]"

definition aws_FAILURE_PATTERNS :: "FailurePattern list" where
  "aws_FAILURE_PATTERNS = [
    \<lparr>FailurePattern.type = PERMISSION, FailurePattern.severity = HIGH,
     patterns = [
       RegExp (Cat [Txt ''User:'', Plus WS, Txt ''arn:aws:'',
           Plus (Cls False [CRange (CHR ''a'') (CHR ''z''), CRange (CHR ''A'') (CHR ''Z''),
           CRange (CHR ''0'') (CHR ''9''), CChar (CHR '':''), CChar (CHR ''-'')]), Plus WS,
           Txt ''is'', Plus WS, Txt ''not'', Plus WS, Txt ''authorized'', Plus WS, Txt ''to'',
           Plus WS, Txt ''perform'']) ''i'',
       RegExp (Txt ''AccessDenied'') ''i'',
       RegExp (Cat [Txt ''not'', Plus WS, Txt ''authorized'', Plus WS, Txt ''to'', Plus WS,
           Txt ''perform'', Plus WS, Txt ''action'']) ''i''],
     FailurePattern.description = ''AWS CodePipeline permission issues''\<rparr>,
    \<lparr>FailurePattern.type = CONFIGURATION, FailurePattern.severity = MEDIUM,
     patterns = [
       RegExp (Cat [Txt ''Invalid'', Plus WS, Txt ''action'', Plus WS,
           Txt ''configuration'']) ''i'',
       RegExp (Cat [Txt ''Action'', Plus WS, Txt ''configuration'', Plus WS, Txt ''validation'',
           Plus WS, Txt ''failed'']) ''i'',
       RegExp (Cat [Txt ''The'', Plus WS, Txt ''action'', Plus WS, Txt ''failed'', Plus WS,
           Txt ''because'', Plus WS, Txt ''the'', Plus WS, Txt ''artifact'']) ''i''],
     FailurePattern.description = ''AWS CodePipeline configuration issues''\<rparr>]"

definition PLATFORM_FAILURE_PATTERNS :: "CIPlatform \<Rightarrow> FailurePattern list option" where
  "PLATFORM_FAILURE_PATTERNS p =
     (case p of
        github \<Rightarrow> Some github_FAILURE_PATTERNS
      | gitlab \<Rightarrow> Some gitlab_FAILURE_PATTERNS
      | circleci \<Rightarrow> Some circleci_FAILURE_PATTERNS
      | aws \<Rightarrow> Some aws_FAILURE_PATTERNS)"

section \<open>The catalog of fixes\<close>

text \<open>\<open>COMMON_FIXES\<close> and \<open>PLATFORM_FIXES\<close> of \<open>failure-fixes.ts\<close>.\<close>

definition COMMON_FIXES :: "FailureFix list" where
  \<open>COMMON_FIXES = [
    \<lparr>FailureFix.type = TEST,
     FailureFix.description = ''Add retry for flaky tests'',
     fixScript = None,
     manualSteps = Some [
         ''Identify the specific tests that are failing'',
         ''Add retry logic to those tests or test suites'',
         ''Consider adding timeouts or increasing existing timeouts'',
         ''Check for race conditions or timing issues in the tests''],
     platformSpecific = None,
     platforms = None\<rparr>,
    \<lparr>FailureFix.type = TEST,
     FailureFix.description = ''Update test expectations'',
     fixScript = None,
     manualSteps = Some [
         ''Review the test failure messages to understand what expectations are not being met'',
         ''Update test expectations to match the current behavior if appropriate'',
         ''If the current behavior is incorrect, fix the implementation instead''],
     platformSpecific = None,
     platforms = None\<rparr>,
    \<lparr>FailureFix.type = TEST,
     FailureFix.description = ''Fix test environment issues'',
     fixScript = None,
     manualSteps = Some [
         ''Ensure test environment has all required dependencies'',
         ''Check for environment-specific issues (file paths, environment variables, etc.)'',
         ''Verify that test fixtures or mock data are up to date'',
         ''Consider using containerization to ensure consistent test environments''],
     platformSpecific = None,
     platforms = None\<rparr>,
    \<lparr>FailureFix.type = BUILD,
     FailureFix.description = ''Fix compilation errors'',
     fixScript = None,
     manualSteps = Some [
         ''Review the build logs to identify specific compilation errors'',
         ''Fix syntax errors, type errors, or other compilation issues'',
         ''Ensure all required dependencies are installed'',
         ''Check for compatibility issues between dependencies''],
     platformSpecific = None,
     platforms = None\<rparr>,
    \<lparr>FailureFix.type = BUILD,
     FailureFix.description = ''Update build configuration'',
     fixScript = None,
     manualSteps = Some [
         ''Review build configuration files for errors or outdated settings'',
         ''Update build tool versions if necessary'',
         ''Check for changes in build tool behavior or requirements'',
         ''Ensure build scripts are compatible with the CI environment''],
     platformSpecific = None,
     platforms = None\<rparr>,
    \<lparr>FailureFix.type = BUILD,
     FailureFix.description = ''Clean build cache'',
     fixScript = Some (''# Clean build cache\<newline>rm -rf node_modules/.cache\<newline>rm -rf .next\<newline>rm -rf dist\<newline>rm -rf build\<newline>rm -rf target\<newline>rm -rf .gradle\<newline>rm -rf .nuget\<newline># Reinstall dependencies\<newline>npm ci || yarn install --frozen-lockfile || pnpm install --frozen-lockfile\<newline># Rebuild\<newline>npm run build || yarn build || pnpm build''),
     manualSteps = Some [
         ''Remove build cache directories'',
         ''Reinstall dependencies from scratch'',
         ''Rebuild the project''],
     platformSpecific = None,
     platforms = None\<rparr>,
    \<lparr>FailureFix.type = DEPENDENCY,
     FailureFix.description = ''Update dependencies'',
     fixScript = None,
     manualSteps = Some [
         ''Update dependency versions to resolve conflicts'',
         ''Check for breaking changes in dependencies'',
         ''Update lockfiles to ensure consistent dependency versions'',
         ''Consider using dependency resolution or overrides for conflicting dependencies''],
     platformSpecific = None,
     platforms = None\<rparr>,
    \<lparr>FailureFix.type = DEPENDENCY,
     FailureFix.description = ''Fix dependency resolution'',
     fixScript = Some (''# For npm\<newline>npm cache clean --force\<newline>rm -rf node_modules\<newline>rm -rf package-lock.json\<newline>npm install\<newline>\<newline># For yarn\<newline>yarn cache clean\<newline>rm -rf node_modules\<newline>rm -rf yarn.lock\<newline>yarn install\<newline>\<newline># For pnpm\<newline>pnpm store prune\<newline>rm -rf node_modules\<newline>rm -rf pnpm-lock.yaml\<newline>pnpm install''),
     manualSteps = Some [
         ''Clear package manager cache'',
         ''Remove node_modules directory and lockfiles'',
         ''Reinstall dependencies from scratch''],
     platformSpecific = None,
     platforms = None\<rparr>,
    \<lparr>FailureFix.type = DEPENDENCY,
     FailureFix.description = ''Use specific dependency versions'',
     fixScript = None,
     manualSteps = Some [
         ''Pin dependency versions to specific versions known to work'',
         ''Use lockfiles to ensure consistent dependency versions'',
         ''Consider using a tool like Renovate or Dependabot to manage dependency updates''],
     platformSpecific = None,
     platforms = None\<rparr>,
    \<lparr>FailureFix.type = RESOURCE,
     FailureFix.description = ''Increase resource limits'',
     fixScript = None,
     manualSteps = Some [
         ''Increase memory limits for build or test processes'',
         ''Increase disk space allocation for the CI environment'',
         ''Consider using a larger CI runner or instance type'',
         ''Split large jobs into smaller ones to reduce resource usage''],
     platformSpecific = None,
     platforms = None\<rparr>,
    \<lparr>FailureFix.type = RESOURCE,
     FailureFix.description = ''Optimize resource usage'',
     fixScript = None,
     manualSteps = Some [
         ''Implement more efficient algorithms or processes'',
         ''Reduce the scope of tests or builds to use fewer resources'',
         ''Use incremental builds or tests when possible'',
         ''Implement caching to reduce resource usage''],
     platformSpecific = None,
     platforms = None\<rparr>,
    \<lparr>FailureFix.type = RESOURCE,
     FailureFix.description = ''Clean up unused resources'',
     fixScript = Some (''# Remove temporary files and directories\<newline>find . -name "*.tmp" -delete\<newline>find . -name "*.log" -delete\<newline># Clean Docker resources\<newline>docker system prune -f\<newline># Clean up disk space\<newline>df -h\<newline>du -sh /* | sort -hr | head -10''),
     manualSteps = Some [
         ''Remove temporary files and directories'',
         ''Clean up Docker resources (images, containers, volumes)'',
         ''Remove build artifacts from previous runs'',
         ''Implement cleanup steps in the CI pipeline''],
     platformSpecific = None,
     platforms = None\<rparr>,
    \<lparr>FailureFix.type = NETWORK,
     FailureFix.description = ''Implement retries for network operations'',
     fixScript = None,
     manualSteps = Some [
         ''Add retry logic for network operations'',
         ''Implement exponential backoff for retries'',
         ''Add timeouts for network operations'',
         ''Consider using a circuit breaker pattern for unreliable services''],
     platformSpecific = None,
     platforms = None\<rparr>,
    \<lparr>FailureFix.type = NETWORK,
     FailureFix.description = ''Use reliable package sources'',
     fixScript = None,
     manualSteps = Some [
         ''Use reliable package registries or mirrors'',
         ''Consider using a private package registry'',
         ''Implement caching for downloaded packages'',
         ''Add fallback package sources''],
     platformSpecific = None,
     platforms = None\<rparr>,
    \<lparr>FailureFix.type = NETWORK,
     FailureFix.description = ''Check service status'',
     fixScript = None,
     manualSteps = Some [
         ''Check the status of external services being used'',
         ''Verify that API endpoints are available and responding correctly'',
         ''Check for service outages or maintenance windows'',
         ''Consider implementing service mocks for testing''],
     platformSpecific = None,
     platforms = None\<rparr>,
    \<lparr>FailureFix.type = PERMISSION,
     FailureFix.description = ''Update permissions'',
     fixScript = None,
     manualSteps = Some [
         ''Review and update permissions for the CI/CD service account'',
         ''Ensure the CI/CD service has access to required resources'',
         ''Check for expired credentials or tokens'',
         ''Verify that environment variables for authentication are set correctly''],
     platformSpecific = None,
     platforms = None\<rparr>,
    \<lparr>FailureFix.type = PERMISSION,
     FailureFix.description = ''Fix file permissions'',
     fixScript = Some (''# Make scripts executable\<newline>find . -name "*.sh" -exec chmod +x {} '' @ [CHR 0x5C] @ '';\<newline># Fix common permission issues\<newline>chmod -R u+rw .''),
     manualSteps = Some [
         ''Make scripts executable with chmod +x'',
         ''Fix file ownership issues'',
         ''Ensure the CI/CD service has write access to required directories'',
         ''Check for permission issues in mounted volumes or shared directories''],
     platformSpecific = None,
     platforms = None\<rparr>,
    \<lparr>FailureFix.type = CONFIGURATION,
     FailureFix.description = ''Fix configuration syntax'',
     fixScript = None,
     manualSteps = Some [
         ''Validate configuration files with appropriate linters or validators'',
         ''Fix syntax errors in YAML, JSON, or other configuration formats'',
         ''Ensure configuration files follow the required schema'',
         ''Check for typos or incorrect indentation''],
     platformSpecific = None,
     platforms = None\<rparr>,
    \<lparr>FailureFix.type = CONFIGURATION,
     FailureFix.description = ''Update environment variables'',
     fixScript = None,
     manualSteps = Some [
         ''Ensure all required environment variables are set'',
         ''Check for typos or incorrect values in environment variables'',
         ''Verify that secret environment variables are properly configured'',
         ''Consider using a .env file for local development''],
     platformSpecific = None,
     platforms = None\<rparr>,
    \<lparr>FailureFix.type = TIMEOUT,
     FailureFix.description = ''Increase timeouts'',
     fixScript = None,
     manualSteps = Some [
         ''Increase timeouts for long-running operations'',
         ''Split long-running jobs into smaller ones'',
         ''Implement progress reporting for long-running operations'',
         ''Consider using a different approach for operations that consistently time out''],
     platformSpecific = None,
     platforms = None\<rparr>,
    \<lparr>FailureFix.type = TIMEOUT,
     FailureFix.description = ''Optimize performance'',
     fixScript = None,
     manualSteps = Some [
         ''Identify and optimize slow operations'',
         ''Implement caching to reduce execution time'',
         ''Use parallel execution where possible'',
         ''Consider using more powerful CI runners or instances''],
     platformSpecific = None,
     platforms = None\<rparr>]\<close>

definition github_FIXES :: "FailureFix list" where
  \<open>github_FIXES = [
    \<lparr>FailureFix.type = PERMISSION,
     FailureFix.description = ''Update GitHub Actions permissions'',
     fixScript = None,
     manualSteps = Some [
         ''Check the "permissions" section in your workflow file'',
         ''Ensure the GITHUB_TOKEN has the required permissions'',
         ''Consider using a personal access token (PAT) with appropriate scopes'',
         ''Update repository settings to allow the required actions''],
     platformSpecific = Some True,
     platforms = Some [github]\<rparr>,
    \<lparr>FailureFix.type = RESOURCE,
     FailureFix.description = ''Optimize GitHub Actions workflow'',
     fixScript = None,
     manualSteps = Some [
         ''Use GitHub-hosted runners with more resources'',
         ''Implement caching for dependencies and build artifacts'',
         ''Use GitHub Actions' built-in caching mechanism'',
         ''Split large workflows into multiple jobs''],
     platformSpecific = Some True,
     platforms = Some [github]\<rparr>,
    \<lparr>FailureFix.type = CONFIGURATION,
     FailureFix.description = ''Fix GitHub Actions workflow syntax'',
     fixScript = None,
     manualSteps = Some [
         ''Validate workflow YAML syntax'',
         ''Check for deprecated actions or syntax'',
         ''Ensure all required inputs for actions are provided'',
         ''Use the GitHub Actions workflow validator''],
     platformSpecific = Some True,
     platforms = Some [github]\<rparr>]\<close>

definition aws_FIXES :: "FailureFix list" where
  \<open>aws_FIXES = [
    \<lparr>FailureFix.type = PERMISSION,
     FailureFix.description = ''Update AWS IAM permissions'',
     fixScript = None,
     manualSteps = Some [
         ''Review IAM roles and policies for CodePipeline, CodeBuild, and other services'',
         ''Ensure the service roles have the required permissions'',
         ''Check for resource-based policies that might be denying access'',
         ''Verify that cross-account permissions are configured correctly''],
     platformSpecific = Some True,
     platforms = Some [aws]\<rparr>,
    \<lparr>FailureFix.type = CONFIGURATION,
     FailureFix.description = ''Fix AWS CodePipeline configuration'',
     fixScript = None,
     manualSteps = Some [
         ''Validate CodePipeline configuration'',
         ''Check artifact configurations between stages'',
         ''Ensure all required parameters are provided for actions'',
         ''Verify that service roles are correctly configured''],
     platformSpecific = Some True,
     platforms = Some [aws]\<rparr>]\<close>

definition gitlab_FIXES :: "FailureFix list" where
  \<open>gitlab_FIXES = [
    \<lparr>FailureFix.type = RESOURCE,
     FailureFix.description = ''Optimize GitLab CI resources'',
     fixScript = None,
     manualSteps = Some [
         ''Use GitLab runners with more resources'',
         ''Implement caching for dependencies and build artifacts'',
         ''Use GitLab CI's built-in caching mechanism'',
         ''Split large jobs into multiple smaller jobs''],
     platformSpecific = Some True,
     platforms = Some [gitlab]\<rparr>,
    \<lparr>FailureFix.type = CONFIGURATION,
     FailureFix.description = ''Fix GitLab CI configuration'',
     fixScript = None,
     manualSteps = Some [
         ''Validate .gitlab-ci.yml syntax'',
         ''Check for deprecated features or syntax'',
         ''Ensure all required variables are defined'',
         ''Use the GitLab CI lint tool to validate configuration''],
     platformSpecific = Some True,
     platforms = Some [gitlab]\<rparr>]\<close>

definition circleci_FIXES :: "FailureFix list" where
  \<open>circleci_FIXES = [
    \<lparr>FailureFix.type = RESOURCE,
     FailureFix.description = ''Optimize CircleCI resources'',
     fixScript = None,
     manualSteps = Some [
         ''Use a larger resource class for jobs'',
         ''Implement caching for dependencies and build artifacts'',
         ''Use CircleCI's built-in caching mechanism'',
         ''Split large jobs into multiple smaller jobs''],
     platformSpecific = Some True,
     platforms = Some [circleci]\<rparr>,
    \<lparr>FailureFix.type = CONFIGURATION,
     FailureFix.description = ''Fix CircleCI configuration'',
     fixScript = None,
     manualSteps = Some [
         ''Validate config.yml syntax'',
         ''Check for deprecated features or syntax'',
         ''Ensure all required parameters are provided for orbs and executors'',
         ''Use the CircleCI config validator to validate configuration''],
     platformSpecific = Some True,
     platforms = Some [circleci]\<rparr>]\<close>

definition PLATFORM_FIXES :: "CIPlatform \<Rightarrow> FailureFix list option" where
  "PLATFORM_FIXES p =
     (case p of
        github \<Rightarrow> Some github_FIXES
      | aws \<Rightarrow> Some aws_FIXES
      | gitlab \<Rightarrow> Some gitlab_FIXES
      | circleci \<Rightarrow> Some circleci_FIXES)"

section \<open>The failure analyzer\<close>

text \<open>
  The methods of \<open>FailureAnalyzer\<close> take the analyzer's options as their first
  argument \<open>this\<close>; the analyzer has no other state.
\<close>

definition fileLineRegex :: regexp where
  "fileLineRegex =
     RegExp (Cat [Group (Plus (Cls False [CRange (CHR ''a'') (CHR ''z''),
       CRange (CHR ''A'') (CHR ''Z''), CRange (CHR ''0'') (CHR ''9''), CChar (CHR ''_''),
       CChar (CHR ''-''), CChar (CHR ''/''), CChar (CHR ''.'')])), Txt '':'',
       Group (Plus Digit), Opt (NGroup (Cat [Txt '':'', Group (Plus Digit)]))]) ''''"

definition extractLocation :: "jsstring \<Rightarrow> jsstring \<Rightarrow> jsstring option" where
  "extractLocation log matchedText =
     (let matchIndex = indexOf log matchedText;
          startIndex = max 0 (matchIndex - 200);
          endIndex = min (int (length log)) (matchIndex + int (length matchedText) + 200);
          context = substring log startIndex endIndex
      in String_match context fileLineRegex)"

text \<open>
  The two nested loops of \<open>analyzeFailure\<close>: every regular expression of every pattern
  is tried on the log, and each one that matches pushes one failure.
\<close>

fun check_regexes ::
  "jsstring \<Rightarrow> FailurePattern \<Rightarrow> regexp list \<Rightarrow> DetectedFailure list \<Rightarrow> DetectedFailure list"
where
  "check_regexes log pattern [] detected = detected"
| "check_regexes log pattern (regex # rest) detected =
     (case String_match log regex of
        None \<Rightarrow> check_regexes log pattern rest detected
      | Some matches0 \<Rightarrow>
          check_regexes log pattern rest
            (detected @
              [\<lparr>DetectedFailure.type = FailurePattern.type pattern,
                DetectedFailure.severity = FailurePattern.severity pattern,
                message = matches0,
                matchedPattern = toString regex,
                DetectedFailure.description = FailurePattern.description pattern,
                location = extractLocation log matches0\<rparr>]))"

fun check_patterns ::
  "jsstring \<Rightarrow> FailurePattern list \<Rightarrow> DetectedFailure list \<Rightarrow> DetectedFailure list"
where
  "check_patterns log [] detected = detected"
| "check_patterns log (pattern # rest) detected =
     check_patterns log rest (check_regexes log pattern (patterns pattern) detected)"

text \<open>The patterns to check: the common ones, then those of the configured platform.\<close>

definition allPatterns :: "SelfHealingOptions \<Rightarrow> FailurePattern list" where
  "allPatterns this =
     FAILURE_PATTERNS @
     (case PLATFORM_FAILURE_PATTERNS (platform this) of None \<Rightarrow> [] | Some ps \<Rightarrow> ps)"

text \<open>
  The list \<open>detectedFailures\<close> as it stands before the final sort: the failures in the
  order in which the matchers were evaluated, or the one unknown failure.
\<close>

definition detectedFailures :: "SelfHealingOptions \<Rightarrow> jsstring \<Rightarrow> DetectedFailure list" where
  "detectedFailures this log =
     (let detected = check_patterns log (allPatterns this) []
      in if length detected = 0
         then detected @
           [\<lparr>DetectedFailure.type = UNKNOWN,
             DetectedFailure.severity = MEDIUM,
             message = js ''Unknown failure'',
             matchedPattern = [],
             DetectedFailure.description = ''Could not determine the specific cause of failure'',
             location = None\<rparr>]
         else detected)"

text \<open>
  \<open>Array.prototype.sort\<close> with a comparison function. ECMAScript requires the sort to be
  stable, and the comparison function used below is a consistent one, so the result is
  the one list that is ordered by the comparison and keeps equal elements in their
  order. An insertion sort computes it: an element goes before the first element that
  it does not compare greater than.
\<close>

fun insert_by :: "('a \<Rightarrow> 'a \<Rightarrow> int) \<Rightarrow> 'a \<Rightarrow> 'a list \<Rightarrow> 'a list" where
  "insert_by cmp x [] = [x]"
| "insert_by cmp x (y # ys) = (if cmp x y \<le> 0 then x # y # ys else y # insert_by cmp x ys)"

definition Array_sort :: "('a \<Rightarrow> 'a \<Rightarrow> int) \<Rightarrow> 'a list \<Rightarrow> 'a list" where
  "Array_sort cmp xs = foldr (insert_by cmp) xs []"

fun severityOrder :: "FailureSeverity \<Rightarrow> int" where
  "severityOrder CRITICAL = 0"
| "severityOrder HIGH = 1"
| "severityOrder MEDIUM = 2"
| "severityOrder LOW = 3"

definition sortFailuresBySeverity :: "DetectedFailure list \<Rightarrow> DetectedFailure list" where
  "sortFailuresBySeverity failures =
     Array_sort
       (\<lambda>a b. severityOrder (DetectedFailure.severity a) - severityOrder (DetectedFailure.severity b))
       failures"

definition analyzeFailure :: "SelfHealingOptions \<Rightarrow> jsstring \<Rightarrow> DetectedFailure list" where
  "analyzeFailure this log = sortFailuresBySeverity (detectedFailures this log)"

text \<open>\<open>!!s\<close> for an optional string: present and not empty.\<close>

definition truthy :: "string option \<Rightarrow> bool" where
  "truthy s = (case s of None \<Rightarrow> False | Some t \<Rightarrow> t \<noteq> [])"

definition getFixesForFailure :: "SelfHealingOptions \<Rightarrow> DetectedFailure \<Rightarrow> FailureFix list" where
  "getFixesForFailure this f =
     (let commonFixes = filter (\<lambda>fix. FailureFix.type fix = DetectedFailure.type f) COMMON_FIXES;
          platformFixes =
            (case PLATFORM_FIXES (platform this) of
               None \<Rightarrow> []
             | Some pfs \<Rightarrow>
                 filter (\<lambda>fix. FailureFix.type fix = DetectedFailure.type f
                          \<and> platformSpecific fix = Some True
                          \<and> (case platforms fix of
                                None \<Rightarrow> False
                              | Some ps \<Rightarrow> List.member ps (platform this))) pfs)
      in commonFixes @ platformFixes)"

definition calculateConfidence :: "DetectedFailure \<Rightarrow> FailureFix list \<Rightarrow> int" where
  "calculateConfidence f fxs =
     (let s = DetectedFailure.severity f;
          c = (if s = CRITICAL then 90
               else if s = HIGH then 75
               else if s = MEDIUM then 60
               else if s = LOW then 40
               else 30);
          c = (if length fxs = 0 then c - 20
               else if length fxs > 3 then c - 10
               else c);
          c = (if DetectedFailure.type f = UNKNOWN then c - 30 else c);
          c = (if list_ex (\<lambda>fix. platformSpecific fix = Some True) fxs then c + 10 else c)
      in max 0 (min 100 c))"

fun suggestFixes :: "SelfHealingOptions \<Rightarrow> DetectedFailure list \<Rightarrow> FixSuggestion list" where
  "suggestFixes this [] = []"
| "suggestFixes this (f # rest) =
     (let fxs = getFixesForFailure this f
      in \<lparr>failure = f,
          fixes = fxs,
          autoFixPossible = list_ex (\<lambda>fix. truthy (fixScript fix)) fxs,
          confidence = calculateConfidence f fxs\<rparr>
         # suggestFixes this rest)"

section \<open>The self-healing manager\<close>

subsection \<open>The report on a pipeline definition\<close>

record Vulnerability =
  type :: string
  description :: string
  severity :: string
  recommendation :: string

record SelfHealingReport =
  vulnerabilities :: "Vulnerability list"
  recommendations :: "string list"
  selfHealingScore :: int

text \<open>
  One check that fires: it pushes a vulnerability, lowers the score and pushes a
  recommendation.
\<close>

definition report :: "Vulnerability \<Rightarrow> int \<Rightarrow> string \<Rightarrow> SelfHealingReport \<Rightarrow> SelfHealingReport" where
  "report v penalty rec st =
     st\<lparr>vulnerabilities := vulnerabilities st @ [v],
        selfHealingScore := selfHealingScore st - penalty,
        recommendations := recommendations st @ [rec]\<rparr>"

text \<open>The \<open>switch\<close> on the platform.\<close>

fun platformChecks :: "CIPlatform \<Rightarrow> jsstring \<Rightarrow> SelfHealingReport \<Rightarrow> SelfHealingReport" where
  "platformChecks github pipelineContent st =
     (let st =
        (if \<not> includes pipelineContent (js ''continue-on-error'')
            \<and> \<not> includes pipelineContent (js ''retry'')
         then report
           \<lparr>Vulnerability.type = ''Missing Retry Mechanism'',
            Vulnerability.description = ''No retry mechanism found for potentially flaky steps'',
            Vulnerability.severity = ''Medium'',
            recommendation =
              ''Add continue-on-error: true for non-critical steps or implement retry logic''\<rparr>
           15 ''Add retry mechanisms for potentially flaky steps'' st
         else st)
      in if \<not> includes pipelineContent (js ''actions/cache'')
         then report
           \<lparr>Vulnerability.type = ''Missing Caching'',
            Vulnerability.description =
              ''No caching mechanism found for dependencies or build artifacts'',
            Vulnerability.severity = ''Low'',
            recommendation = ''Use actions/cache to cache dependencies and build artifacts''\<rparr>
           10 ''Implement caching for dependencies and build artifacts'' st
         else st)"
| "platformChecks gitlab pipelineContent st =
     (let st =
        (if \<not> includes pipelineContent (js ''retry:'')
         then report
           \<lparr>Vulnerability.type = ''Missing Retry Mechanism'',
            Vulnerability.description = ''No retry mechanism found for potentially flaky jobs'',
            Vulnerability.severity = ''Medium'',
            recommendation = ''Add retry configuration for jobs that might be flaky''\<rparr>
           15 ''Add retry configuration for potentially flaky jobs'' st
         else st)
      in if \<not> includes pipelineContent (js ''cache:'')
         then report
           \<lparr>Vulnerability.type = ''Missing Caching'',
            Vulnerability.description =
              ''No caching mechanism found for dependencies or build artifacts'',
            Vulnerability.severity = ''Low'',
            recommendation =
              ''Use GitLab CI caching to cache dependencies and build artifacts''\<rparr>
           10 ''Implement caching for dependencies and build artifacts'' st
         else st)"
| "platformChecks circleci pipelineContent st =
     (let st =
        (if \<not> includes pipelineContent (js ''when: on_fail'')
            \<and> \<not> includes pipelineContent (js ''no_output_timeout:'')
         then report
           \<lparr>Vulnerability.type = ''Missing Retry Mechanism'',
            Vulnerability.description = ''No retry mechanism or failure handling found'',
            Vulnerability.severity = ''Medium'',
            recommendation = ''Add when: on_fail conditions or implement retry logic''\<rparr>
           15 ''Add failure handling mechanisms'' st
         else st)
      in if \<not> includes pipelineContent (js ''save_cache'')
            \<and> \<not> includes pipelineContent (js ''restore_cache'')
         then report
           \<lparr>Vulnerability.type = ''Missing Caching'',
            Vulnerability.description =
              ''No caching mechanism found for dependencies or build artifacts'',
            Vulnerability.severity = ''Low'',
            recommendation =
              ''Use CircleCI caching to cache dependencies and build artifacts''\<rparr>
           10 ''Implement caching for dependencies and build artifacts'' st
         else st)"
| "platformChecks aws pipelineContent st =
     (if \<not> includes pipelineContent (js ''RetryCount'')
         \<and> \<not> includes pipelineContent (js ''RetryMode'')
      then report
        \<lparr>Vulnerability.type = ''Missing Retry Mechanism'',
         Vulnerability.description = ''No retry mechanism found for potentially flaky steps'',
         Vulnerability.severity = ''Medium'',
         recommendation =
           ''Add retry configuration for CodeBuild projects or Lambda functions''\<rparr>
        15 ''Add retry configuration for potentially flaky steps'' st
      else st)"

text \<open>The check shared by all platforms.\<close>

definition timeoutCheck :: "jsstring \<Rightarrow> SelfHealingReport \<Rightarrow> SelfHealingReport" where
  "timeoutCheck pipelineContent st =
     (if \<not> includes pipelineContent (js ''timeout'')
         \<and> \<not> includes pipelineContent (js ''Timeout'')
         \<and> \<not> includes pipelineContent (js ''time-out'')
         \<and> \<not> includes pipelineContent (js ''TimeoutInMinutes'')
      then report
        \<lparr>Vulnerability.type = ''Missing Timeout Configuration'',
         Vulnerability.description = ''No timeout configuration found for jobs or steps'',
         Vulnerability.severity = ''Low'',
         recommendation = ''Add appropriate timeout configuration to prevent hanging jobs''\<rparr>
        5 ''Add timeout configuration for jobs and steps'' st
      else st)"

definition generateSelfHealingReport :: "CIPlatform \<Rightarrow> jsstring \<Rightarrow> SelfHealingReport" where
  "generateSelfHealingReport p pipelineContent =
     (let st = \<lparr>vulnerabilities = [], recommendations = [], selfHealingScore = 100\<rparr>;
          st = platformChecks p pipelineContent st;
          st = timeoutCheck pipelineContent st
      in st\<lparr>selfHealingScore := max 0 (min 100 (selfHealingScore st))\<rparr>)"

subsection \<open>Applying a fix\<close>

text \<open>
  \<open>attemptFix\<close> writes the fix script to a temporary file, runs it and logs the attempt.
  The file system and the log directory are the state; what the operating system answers
  to each call is the environment \<open>Env\<close>: whether a call throws (and with which
  message), how the script ends and what it does to the files. An operation that throws
  returns \<open>Inl\<close> with the message and the state at that moment.
\<close>

record FixResult =
  success :: bool
  message :: string
  "output" :: "string option"
  error :: "string option"

text \<open>
  The document that \<open>logFixAttempt\<close> writes: timestamp, platform, failure, fixes,
  success, output and error, in this order.
\<close>

datatype FixAttempt =
  FixAttempt string CIPlatform DetectedFailure "FailureFix list" bool string string

record World =
  files :: "string \<rightharpoonup> string"
  history :: "FixAttempt list"

record Env =
  scriptFile :: string
  writeFile_throws :: "string option"
  chmod_throws :: "string option"
  exec_outcome :: "string + string \<times> string"
  exec_effect :: "(string \<rightharpoonup> string) \<Rightarrow> (string \<rightharpoonup> string)"
  remove_throws :: "string option"
  log_timestamp :: string
  log_throws :: bool

text \<open>
  \<open>scriptFile\<close> is the path \<open>path.join(os.tmpdir(), `qforge-fix-${Date.now()}.sh`)\<close>;
  \<open>exec_outcome\<close> is the rejection message of the child process, or its standard
  output and standard error.
\<close>

definition fs_writeFile :: "Env \<Rightarrow> string \<Rightarrow> string \<Rightarrow> World \<Rightarrow> string \<times> World + World" where
  "fs_writeFile env file content w =
     (case writeFile_throws env of
        Some e \<Rightarrow> Inl (e, w)
      | None \<Rightarrow> Inr (w\<lparr>files := (files w)(file \<mapsto> content)\<rparr>))"

definition fs_chmod :: "Env \<Rightarrow> string \<Rightarrow> World \<Rightarrow> string \<times> World + World" where
  "fs_chmod env file w =
     (case chmod_throws env of Some e \<Rightarrow> Inl (e, w) | None \<Rightarrow> Inr w)"

definition fs_remove :: "Env \<Rightarrow> string \<Rightarrow> World \<Rightarrow> string \<times> World + World" where
  "fs_remove env file w =
     (case remove_throws env of
        Some e \<Rightarrow> Inl (e, w)
      | None \<Rightarrow> Inr (w\<lparr>files := (files w)(file := None)\<rparr>))"

definition execAsync ::
  "Env \<Rightarrow> string \<Rightarrow> string \<Rightarrow> World \<Rightarrow> string \<times> World + (string \<times> string) \<times> World"
where
  "execAsync env command cwd w =
     (let w' = w\<lparr>files := exec_effect env (files w)\<rparr>
      in case exec_outcome env of
           Inl e \<Rightarrow> Inl (e, w')
         | Inr streams \<Rightarrow> Inr (streams, w'))"

text \<open>\<open>logFixAttempt\<close> swallows its own errors.\<close>

definition logFixAttempt ::
  "SelfHealingOptions \<Rightarrow> FixSuggestion \<Rightarrow> bool \<Rightarrow> string \<Rightarrow> string \<Rightarrow> Env \<Rightarrow> World \<Rightarrow> World"
where
  "logFixAttempt this suggestion ok out err env w =
     (if log_throws env then w
      else w\<lparr>history := history w @
             [FixAttempt (log_timestamp env) (platform this) (failure suggestion)
                (fixes suggestion) ok out err]\<rparr>)"

text \<open>The body of the \<open>try\<close> block.\<close>

definition try_fix ::
  "SelfHealingOptions \<Rightarrow> FixSuggestion \<Rightarrow> FailureFix \<Rightarrow> string \<Rightarrow> string \<Rightarrow> Env \<Rightarrow> World
     \<Rightarrow> string \<times> World + FixResult \<times> World"
where
  \<open>try_fix this suggestion fix script workingDir env w =
     (case fs_writeFile env (scriptFile env) script w of
        Inl thrown \<Rightarrow> Inl thrown
      | Inr w \<Rightarrow>
     (case fs_chmod env (scriptFile env) w of
        Inl thrown \<Rightarrow> Inl thrown
      | Inr w \<Rightarrow>
     (case execAsync env (''bash "'' @ scriptFile env @ ''"'') workingDir w of
        Inl thrown \<Rightarrow> Inl thrown
      | Inr ((stdout, stderr), w) \<Rightarrow>
     (case fs_remove env (scriptFile env) w of
        Inl thrown \<Rightarrow> Inl thrown
      | Inr w \<Rightarrow>
          Inr (\<lparr>success = True,
                message = ''Successfully applied fix: '' @ FailureFix.description fix,
                output = Some stdout,
                error = Some stderr\<rparr>,
               logFixAttempt this suggestion True stdout stderr env w)))))\<close>

definition attemptFix ::
  "SelfHealingOptions \<Rightarrow> FixSuggestion \<Rightarrow> string \<Rightarrow> Env \<Rightarrow> World \<Rightarrow> FixResult \<times> World"
where
  "attemptFix this suggestion workingDir env w =
     (if \<not> autoFixPossible suggestion
      then (\<lparr>success = False, message = ''No automatic fix available for this failure'',
             output = None, error = None\<rparr>, w)
      else
        (case find (\<lambda>f. truthy (fixScript f)) (fixes suggestion) of
           None \<Rightarrow>
             (\<lparr>success = False, message = ''No fix script available'',
               output = None, error = None\<rparr>, w)
         | Some fix \<Rightarrow>
             (case fixScript fix of
                None \<Rightarrow>
                  (\<lparr>success = False, message = ''No fix script available'',
                    output = None, error = None\<rparr>, w)
              | Some script \<Rightarrow>
                  if script = []
                  then (\<lparr>success = False, message = ''No fix script available'',
                         output = None, error = None\<rparr>, w)
                  else
                    (case try_fix this suggestion fix script workingDir env w of
                       Inr done \<Rightarrow> done
                     | Inl (e, w') \<Rightarrow>
                         (\<lparr>success = False,
                           message = ''Failed to apply fix: '' @ e,
                           output = None,
                           error = Some e\<rparr>,
                          logFixAttempt this suggestion False [] e env w')))))"

section \<open>The properties, as the specification words them\<close>

text \<open>
  The confidence of a suggestion as the specification describes it: a base value given
  by the severity, three deductions and one bonus, then clamped to the interval from 0 to
  100.
\<close>

fun base_confidence :: "FailureSeverity \<Rightarrow> int" where
  "base_confidence CRITICAL = 90"
| "base_confidence HIGH = 75"
| "base_confidence MEDIUM = 60"
| "base_confidence LOW = 40"

definition spec_confidence :: "DetectedFailure \<Rightarrow> FailureFix list \<Rightarrow> int" where
  "spec_confidence f fxs =
     max 0 (min 100
       (base_confidence (DetectedFailure.severity f)
        - (if fxs = [] then 20 else 0)
        - (if length fxs > 3 then 10 else 0)
        - (if DetectedFailure.type f = UNKNOWN then 30 else 0)
        + (if list_ex (\<lambda>fix. platformSpecific fix = Some True) fxs then 10 else 0)))"

text \<open>
  The penalty that the specification gives to each kind of vulnerability, and the
  relation between the parts of a report under construction: one recommendation per
  vulnerability, and a score of 100 less the penalties.
\<close>

definition penalty :: "Vulnerability \<Rightarrow> int" where
  "penalty v =
     (if Vulnerability.type v = ''Missing Retry Mechanism'' then 15
      else if Vulnerability.type v = ''Missing Caching'' then 10
      else if Vulnerability.type v = ''Missing Timeout Configuration'' then 5
      else 0)"

definition consistent :: "SelfHealingReport \<Rightarrow> bool" where
  "consistent st =
     (length (vulnerabilities st) = length (recommendations st)
      \<and> selfHealingScore st = 100 - sum_list (map penalty (vulnerabilities st)))"

section \<open>Concrete inputs\<close>

text \<open>The log of the test-failure scenario, and a detected build failure.\<close>

definition scenario_log :: jsstring where
  "scenario_log = js ''FAIL src/x.test.js ... expect(fn()).toHaveBeenCalledTimes(1)''"

definition build_failure :: DetectedFailure where
  "build_failure =
     \<lparr>DetectedFailure.type = BUILD,
      DetectedFailure.severity = HIGH,
      message = js ''build failed'',
      matchedPattern = toString (RegExp (Cat [Txt ''build'', Plus WS, Txt ''failed'']) ''i''),
      DetectedFailure.description = ''Build or compilation process failed'',
      location = None\<rparr>"

text \<open>
  An environment in which the script is written and made executable, and then exits with
  an error without touching any file.
\<close>

definition failing_env :: Env where
  "failing_env =
     \<lparr>scriptFile = ''/tmp/qforge-fix-1700000000000.sh'',
      writeFile_throws = None,
      chmod_throws = None,
      exec_outcome = Inl ''Command failed: bash'',
      exec_effect = (\<lambda>fs. fs),
      remove_throws = None,
      log_timestamp = ''2023-11-14T22:13:20.000Z'',
      log_throws = False\<rparr>"

definition empty_world :: World where
  "empty_world = \<lparr>files = Map.empty, history = []\<rparr>"

text \<open>An unknown failure of low severity.\<close>

definition low_unknown :: DetectedFailure where
  "low_unknown =
     \<lparr>DetectedFailure.type = UNKNOWN,
      DetectedFailure.severity = LOW,
      message = js ''Unknown failure'',
      matchedPattern = [],
      DetectedFailure.description = ''Could not determine the specific cause of failure'',
      location = None\<rparr>"

text \<open>
  A log with a failed assertion and an exhausted memory, and the two failures that the
  analyzer detects in it.
\<close>

definition mixed_log :: jsstring where
  "mixed_log = js ''assertion failed at a.ts:3; out of memory''"

definition assertion_failure :: DetectedFailure where
  "assertion_failure =
     \<lparr>DetectedFailure.type = TEST,
      DetectedFailure.severity = MEDIUM,
      message = js ''assertion failed'',
      matchedPattern = toString (RegExp (Cat [Txt ''assertion'', Plus WS, Txt ''failed'']) ''i''),
      DetectedFailure.description = ''One or more tests failed during execution'',
      location = Some (js ''a.ts:3'')\<rparr>"

definition memory_failure :: DetectedFailure where
  "memory_failure =
     \<lparr>DetectedFailure.type = RESOURCE,
      DetectedFailure.severity = HIGH,
      message = js ''out of memory'',
      matchedPattern =
        toString (RegExp (Cat [Txt ''out'', Plus WS, Txt ''of'', Plus WS, Txt ''memory'']) ''i''),
      DetectedFailure.description = ''Process ran out of memory, disk space, or other resources'',
      location = Some (js ''a.ts:3'')\<rparr>"

section \<open>Properties of the report\<close>

lemma consistent_report:
  "consistent st \<Longrightarrow> penalty v = n \<Longrightarrow> consistent (report v n r st)"
  by (simp add: consistent_def report_def)

lemma consistent_platformChecks:
  "consistent st \<Longrightarrow> consistent (platformChecks p pc st)"
  by (cases p) (simp_all add: Let_def consistent_report penalty_def)

lemma consistent_timeoutCheck:
  "consistent st \<Longrightarrow> consistent (timeoutCheck pc st)"
  by (simp add: timeoutCheck_def consistent_report penalty_def)

text \<open>
  Claim C10. For every platform and every pipeline-definition text, the report has as
  many recommendations as vulnerabilities, and its score is 100 less the penalties of the
  checks that fired (15 for a missing retry mechanism, 10 for missing caching, 5 for a
  missing timeout configuration), clamped to the interval from 0 to 100.
\<close>

theorem report_lists_and_score:
  "length (vulnerabilities (generateSelfHealingReport p pc))
     = length (recommendations (generateSelfHealingReport p pc))
   \<and> selfHealingScore (generateSelfHealingReport p pc)
     = max 0 (min 100
         (100 - sum_list (map penalty (vulnerabilities (generateSelfHealingReport p pc)))))"
proof -
  let ?init = "\<lparr>vulnerabilities = [], recommendations = [], selfHealingScore = 100\<rparr>"
  let ?st = "timeoutCheck pc (platformChecks p pc ?init)"
  have c0: "consistent ?init" by (simp add: consistent_def)
  have c1: "consistent (platformChecks p pc ?init)"
    using c0 by (rule consistent_platformChecks)
  have "consistent ?st"
    using c1 by (rule consistent_timeoutCheck)
  then have len: "length (vulnerabilities ?st) = length (recommendations ?st)"
    and score: "selfHealingScore ?st = 100 - sum_list (map penalty (vulnerabilities ?st))"
    unfolding consistent_def by blast+
  have gen: "generateSelfHealingReport p pc
      = ?st\<lparr>selfHealingScore := max 0 (min 100 (selfHealingScore ?st))\<rparr>"
    by (simp add: generateSelfHealingReport_def Let_def)
  show ?thesis
    unfolding gen using len score by simp
qed

text \<open>
  The report for GitLab on a text that configures retries: the caching check and the
  timeout check fire, the retry check does not.
\<close>

theorem report_lists_and_score_witness:
  "length (vulnerabilities (generateSelfHealingReport gitlab (js ''retry: 2''))) = 2
   \<and> length (recommendations (generateSelfHealingReport gitlab (js ''retry: 2''))) = 2
   \<and> selfHealingScore (generateSelfHealingReport gitlab (js ''retry: 2'')) = 85"
proof -
  have types: "map Vulnerability.type
       (vulnerabilities (generateSelfHealingReport gitlab (js ''retry: 2'')))
     = [''Missing Caching'', ''Missing Timeout Configuration'']"
    by (simp add: generateSelfHealingReport_def timeoutCheck_def report_def js_def)
  then have "length (map Vulnerability.type
       (vulnerabilities (generateSelfHealingReport gitlab (js ''retry: 2'')))) = 2"
    by simp
  then have two: "length (vulnerabilities (generateSelfHealingReport gitlab (js ''retry: 2''))) = 2"
    by simp
  have "map penalty (vulnerabilities (generateSelfHealingReport gitlab (js ''retry: 2'')))
     = [10, 5]"
    by (simp add: generateSelfHealingReport_def timeoutCheck_def report_def js_def penalty_def)
  then show ?thesis
    using report_lists_and_score [of gitlab "js ''retry: 2''"] two by simp
qed

text \<open>
  Claim C8. For the platform github and the empty pipeline-definition text the report
  has the score 100 - 15 - 10 - 5 = 70 and exactly three vulnerabilities: the missing
  retry mechanism, the missing caching and the missing timeout configuration.
\<close>

theorem report_github_empty:
  "selfHealingScore (generateSelfHealingReport github (js '''')) = 100 - 15 - 10 - 5
   \<and> selfHealingScore (generateSelfHealingReport github (js '''')) = 70
   \<and> length (vulnerabilities (generateSelfHealingReport github (js ''''))) = 3
   \<and> map Vulnerability.type (vulnerabilities (generateSelfHealingReport github (js '''')))
       = [''Missing Retry Mechanism'', ''Missing Caching'', ''Missing Timeout Configuration'']"
  by (simp add: generateSelfHealingReport_def timeoutCheck_def report_def js_def)

text \<open>
  The three branches that check both the retry markers and the caching markers: with
  none of the platform's markers in the text, they report both vulnerabilities.
\<close>

lemma both_platform_checks:
  assumes "p \<in> {github, gitlab, circleci}"
    and "platformChecks p pc st = st'"
  shows "map Vulnerability.type (vulnerabilities st') =
      map Vulnerability.type (vulnerabilities st)
      @ (if (case p of
               github \<Rightarrow> \<not> includes pc (js ''continue-on-error'') \<and> \<not> includes pc (js ''retry'')
             | gitlab \<Rightarrow> \<not> includes pc (js ''retry:'')
             | circleci \<Rightarrow> \<not> includes pc (js ''when: on_fail'')
                   \<and> \<not> includes pc (js ''no_output_timeout:'')
             | aws \<Rightarrow> False)
         then [''Missing Retry Mechanism''] else [])
      @ (if (case p of
               github \<Rightarrow> \<not> includes pc (js ''actions/cache'')
             | gitlab \<Rightarrow> \<not> includes pc (js ''cache:'')
             | circleci \<Rightarrow> \<not> includes pc (js ''save_cache'')
                   \<and> \<not> includes pc (js ''restore_cache'')
             | aws \<Rightarrow> False)
         then [''Missing Caching''] else [])"
  using assms by (auto simp: Let_def report_def)

text \<open>
  Claim C6. Every supported platform, aws among them, is checked for a retry mechanism
  and for caching. The branch for aws has the retry check only: for aws and the empty
  text, which holds no caching marker of any platform, the report has no Missing Caching
  vulnerability and the score is 80; the 10 points for missing caching are not deducted.
\<close>

theorem report_aws_has_no_caching_check:
  "map Vulnerability.type (vulnerabilities (generateSelfHealingReport aws (js '''')))
       = [''Missing Retry Mechanism'', ''Missing Timeout Configuration'']
   \<and> selfHealingScore (generateSelfHealingReport aws (js '''')) = 80
   \<and> map Vulnerability.type (vulnerabilities (generateSelfHealingReport github (js '''')))
       = [''Missing Retry Mechanism'', ''Missing Caching'', ''Missing Timeout Configuration'']"
  by (simp add: generateSelfHealingReport_def timeoutCheck_def report_def js_def)

section \<open>Sorting by severity\<close>

lemma set_insert_by: "set (insert_by cmp x ys) = insert x (set ys)"
  by (induction ys) auto

lemma set_Array_sort: "set (Array_sort cmp xs) = set xs"
  by (induction xs) (simp_all add: Array_sort_def set_insert_by)

lemma length_insert_by: "length (insert_by cmp x ys) = Suc (length ys)"
  by (induction ys) simp_all

lemma length_Array_sort: "length (Array_sort cmp xs) = length xs"
  by (induction xs) (simp_all add: Array_sort_def length_insert_by)

lemma sorted_insert_by:
  assumes key: "\<And>a b. (cmp a b \<le> 0) = (k a \<le> (k b :: int))"
    and "sorted_wrt (\<lambda>a b. k a \<le> k b) ys"
  shows "sorted_wrt (\<lambda>a b. k a \<le> k b) (insert_by cmp x ys)"
  using assms(2)
proof (induction ys)
  case Nil
  then show ?case by simp
next
  case (Cons y ys)
  show ?case
  proof (cases "cmp x y \<le> 0")
    case True
    then have "k x \<le> k y" by (simp add: key)
    with Cons.prems show ?thesis using True by fastforce
  next
    case False
    then have "k y \<le> k x" using key [of x y] by linarith
    with Cons False show ?thesis by (auto simp: set_insert_by)
  qed
qed

lemma sorted_Array_sort:
  assumes "\<And>a b. (cmp a b \<le> 0) = (k a \<le> (k b :: int))"
  shows "sorted_wrt (\<lambda>a b. k a \<le> k b) (Array_sort cmp xs)"
proof (induction xs)
  case Nil
  show ?case by (simp add: Array_sort_def)
next
  case (Cons x xs)
  have "Array_sort cmp (x # xs) = insert_by cmp x (Array_sort cmp xs)"
    by (simp add: Array_sort_def)
  with Cons show ?case by (simp add: sorted_insert_by [OF assms])
qed

lemma filter_insert_by:
  assumes key: "\<And>a b. (cmp a b \<le> 0) = (k a \<le> (k b :: int))"
  shows "filter (\<lambda>y. k y = v) (insert_by cmp x ys)
           = (if k x = v then x # filter (\<lambda>y. k y = v) ys else filter (\<lambda>y. k y = v) ys)"
proof (induction ys)
  case Nil
  show ?case by simp
next
  case (Cons y ys)
  show ?case
  proof (cases "cmp x y \<le> 0")
    case True
    then show ?thesis by simp
  next
    case False
    then have "k y < k x" using key [of x y] by linarith
    with Cons False show ?thesis by auto
  qed
qed

lemma filter_Array_sort:
  assumes "\<And>a b. (cmp a b \<le> 0) = (k a \<le> (k b :: int))"
  shows "filter (\<lambda>y. k y = v) (Array_sort cmp xs) = filter (\<lambda>y. k y = v) xs"
proof (induction xs)
  case Nil
  show ?case by (simp add: Array_sort_def)
next
  case (Cons x xs)
  have "Array_sort cmp (x # xs) = insert_by cmp x (Array_sort cmp xs)"
    by (simp add: Array_sort_def)
  with Cons show ?case by (simp add: filter_insert_by [OF assms])
qed

lemma severityOrder_inj: "(severityOrder a = severityOrder b) = (a = b)"
  by (cases a; cases b) simp_all

section \<open>Detection\<close>

lemma check_regexes_append:
  "check_regexes log p rs acc = acc @ check_regexes log p rs []"
proof (induction rs arbitrary: acc)
  case Nil
  show ?case by simp
next
  case (Cons r rs)
  show ?case
  proof (cases "String_match log r")
    case None
    then show ?thesis using Cons [of acc] by simp
  next
    case (Some m)
    let ?d = "\<lparr>DetectedFailure.type = FailurePattern.type p,
                DetectedFailure.severity = FailurePattern.severity p,
                message = m,
                matchedPattern = toString r,
                DetectedFailure.description = FailurePattern.description p,
                location = extractLocation log m\<rparr>"
    have "check_regexes log p (r # rs) acc = check_regexes log p rs (acc @ [?d])"
      using Some by simp
    also have "\<dots> = (acc @ [?d]) @ check_regexes log p rs []"
      by (rule Cons)
    also have "\<dots> = acc @ check_regexes log p rs [?d]"
      using Cons [of "[?d]"] by simp
    also have "\<dots> = acc @ check_regexes log p (r # rs) []"
      using Some by simp
    finally show ?thesis .
  qed
qed

lemma check_patterns_append:
  "check_patterns log ps acc = acc @ check_patterns log ps []"
proof (induction ps arbitrary: acc)
  case Nil
  show ?case by simp
next
  case (Cons p ps)
  have "check_patterns log (p # ps) acc
          = check_regexes log p (patterns p) acc @ check_patterns log ps []"
    using Cons [of "check_regexes log p (patterns p) acc"] by simp
  also have "\<dots> = acc @ check_regexes log p (patterns p) [] @ check_patterns log ps []"
    using check_regexes_append [of log p "patterns p" acc] by simp
  also have "\<dots> = acc @ check_patterns log (p # ps) []"
    using Cons [of "check_regexes log p (patterns p) []"] by simp
  finally show ?case .
qed

lemma check_regexes_no_match:
  "\<forall>r\<in>set rs. String_match log r = None \<Longrightarrow> check_regexes log p rs acc = acc"
  by (induction rs arbitrary: acc) simp_all

lemma check_patterns_no_match:
  "\<forall>p\<in>set ps. \<forall>r\<in>set (patterns p). String_match log r = None
     \<Longrightarrow> check_patterns log ps acc = acc"
  by (induction ps arbitrary: acc) (simp_all add: check_regexes_no_match)

lemma check_regexes_Cons:
  "check_regexes log p (r # rs) [] =
     (case String_match log r of
        None \<Rightarrow> []
      | Some m \<Rightarrow>
          [\<lparr>DetectedFailure.type = FailurePattern.type p,
            DetectedFailure.severity = FailurePattern.severity p,
            message = m,
            matchedPattern = toString r,
            DetectedFailure.description = FailurePattern.description p,
            location = extractLocation log m\<rparr>])
     @ check_regexes log p rs []"
proof (cases "String_match log r")
  case None
  then show ?thesis by simp
next
  case (Some m)
  then show ?thesis
    using check_regexes_append [of log p rs "[\<lparr>DetectedFailure.type = FailurePattern.type p,
            DetectedFailure.severity = FailurePattern.severity p,
            message = m,
            matchedPattern = toString r,
            DetectedFailure.description = FailurePattern.description p,
            location = extractLocation log m\<rparr>]"]
    by simp
qed

lemma check_patterns_Cons:
  "check_patterns log (p # ps) [] = check_regexes log p (patterns p) [] @ check_patterns log ps []"
  using check_patterns_append [of log ps "check_regexes log p (patterns p) []"] by simp

lemma check_regexes_severity:
  "f \<in> set (check_regexes log p rs [])
     \<Longrightarrow> DetectedFailure.severity f = FailurePattern.severity p"
proof (induction rs)
  case Nil
  then show ?case by simp
next
  case (Cons r rs)
  then show ?case
    unfolding check_regexes_Cons by (auto split: option.splits)
qed

lemma check_patterns_severity:
  "f \<in> set (check_patterns log ps [])
     \<Longrightarrow> \<exists>p\<in>set ps. DetectedFailure.severity f = FailurePattern.severity p"
proof (induction ps)
  case Nil
  then show ?case by simp
next
  case (Cons p ps)
  then show ?case
    unfolding check_patterns_Cons using check_regexes_severity [of f log p "patterns p"] by auto
qed

lemma check_patterns_concat:
  "check_patterns log (ps @ qs) [] = check_patterns log ps [] @ check_patterns log qs []"
proof (induction ps)
  case Nil
  show ?case by simp
next
  case (Cons p ps)
  then show ?case unfolding append_Cons check_patterns_Cons by simp
qed

section \<open>Running the matcher on concrete logs\<close>

text \<open>
  Rules that let the simplifier run \<open>exec_from\<close> over a log of numerals: a start
  position whose first code unit differs from the first literal of the pattern is
  skipped in one step.
\<close>

lemma exec_skip_Cat_Txt:
  "Canonicalize ic (of_char a) \<noteq> Canonicalize ic c
     \<Longrightarrow> exec_from ic (Cat (Txt (a # t) # rs)) (c # s) = exec_from ic (Cat (Txt (a # t) # rs)) s"
  by simp

lemma exec_hit_Cat_Txt:
  "Canonicalize ic (of_char a) = Canonicalize ic c
     \<Longrightarrow> exec_from ic (Cat (Txt (a # t) # rs)) (c # s) =
          (case ends ic (Cat (Txt t # rs)) s of
             [] \<Rightarrow> exec_from ic (Cat (Txt (a # t) # rs)) s
           | e # _ \<Rightarrow> Some (c # s, e))"
  by simp

lemma exec_skip_Txt:
  "Canonicalize ic (of_char a) \<noteq> Canonicalize ic c
     \<Longrightarrow> exec_from ic (Txt (a # t)) (c # s) = exec_from ic (Txt (a # t)) s"
  by simp

lemma exec_hit_Txt:
  "Canonicalize ic (of_char a) = Canonicalize ic c
     \<Longrightarrow> exec_from ic (Txt (a # t)) (c # s) =
          (case ends ic (Txt t) s of
             [] \<Rightarrow> exec_from ic (Txt (a # t)) s
           | e # _ \<Rightarrow> Some (c # s, e))"
  by simp

lemma exec_Cat_Atom:
  "exec_from ic (Cat (Atom a # rs)) (c # s) =
     (case ends ic (Cat (Atom a # rs)) (c # s) of
        [] \<Rightarrow> exec_from ic (Cat (Atom a # rs)) s
      | e # _ \<Rightarrow> Some (c # s, e))"
  by simp

lemma exec_Cat_Group:
  "exec_from ic (Cat (Group r # rs)) (c # s) =
     (case ends ic (Cat (Group r # rs)) (c # s) of
        [] \<Rightarrow> exec_from ic (Cat (Group r # rs)) s
      | e # _ \<Rightarrow> Some (c # s, e))"
  by simp

lemmas run_matcher =
  exec_skip_Cat_Txt exec_hit_Cat_Txt exec_skip_Txt exec_hit_Txt exec_Cat_Atom exec_Cat_Group
  Canonicalize_def isWhiteSpace_def isLineTerminator_def othercase_def

lemma empty_log_no_match:
  "\<forall>p\<in>set (allPatterns DEFAULT_SELF_HEALING_OPTIONS).
     \<forall>r\<in>set (patterns p). String_match [] r = None"
  by (simp add: allPatterns_def DEFAULT_SELF_HEALING_OPTIONS_def PLATFORM_FAILURE_PATTERNS_def
      FAILURE_PATTERNS_def github_FAILURE_PATTERNS_def)

lemma scenario_log_units:
  "scenario_log =
     [70, 65, 73, 76, 32, 115, 114, 99, 47, 120, 46, 116, 101, 115, 116, 46, 106, 115, 32,
      46, 46, 46, 32, 101, 120, 112, 101, 99, 116, 40, 102, 110, 40, 41, 41, 46, 116, 111,
      72, 97, 118, 101, 66, 101, 101, 110, 67, 97, 108, 108, 101, 100, 84, 105, 109, 101,
      115, 40, 49, 41]"
  by (simp add: scenario_log_def js_def)

lemma scenario_common_no_match:
  "\<forall>p\<in>set FAILURE_PATTERNS. \<forall>r\<in>set (patterns p). String_match scenario_log r = None"
  unfolding scenario_log_units
  by (simp add: FAILURE_PATTERNS_def run_matcher del: exec_from.simps(2))

lemma scenario_github_no_match:
  "\<forall>p\<in>set github_FAILURE_PATTERNS. \<forall>r\<in>set (patterns p). String_match scenario_log r = None"
  unfolding scenario_log_units
  by (simp add: github_FAILURE_PATTERNS_def run_matcher del: exec_from.simps(2))

lemma scenario_no_match:
  "\<forall>p\<in>set (allPatterns DEFAULT_SELF_HEALING_OPTIONS).
     \<forall>r\<in>set (patterns p). String_match scenario_log r = None"
  using scenario_common_no_match scenario_github_no_match
  by (simp add: allPatterns_def DEFAULT_SELF_HEALING_OPTIONS_def PLATFORM_FAILURE_PATTERNS_def
      ball_Un)

lemma mixed_log_units:
  "mixed_log =
     [97, 115, 115, 101, 114, 116, 105, 111, 110, 32, 102, 97, 105, 108, 101, 100, 32, 97,
      116, 32, 97, 46, 116, 115, 58, 51, 59, 32, 111, 117, 116, 32, 111, 102, 32, 109, 101,
      109, 111, 114, 121]"
  by (simp add: mixed_log_def js_def)

lemma mixed_log_common:
  "check_patterns mixed_log FAILURE_PATTERNS [] = [assertion_failure, memory_failure]"
  unfolding mixed_log_units
  by (simp add: FAILURE_PATTERNS_def run_matcher extractLocation_def indexOf_def substring_def
      fileLineRegex_def assertion_failure_def memory_failure_def js_def Let_def
      del: exec_from.simps(2))

lemma mixed_log_github:
  "check_patterns mixed_log github_FAILURE_PATTERNS [] = []"
  unfolding mixed_log_units
  by (simp add: github_FAILURE_PATTERNS_def run_matcher del: exec_from.simps(2))

lemma mixed_log_detected:
  "detectedFailures DEFAULT_SELF_HEALING_OPTIONS mixed_log = [assertion_failure, memory_failure]"
proof -
  have "allPatterns DEFAULT_SELF_HEALING_OPTIONS = FAILURE_PATTERNS @ github_FAILURE_PATTERNS"
    by (simp add: allPatterns_def DEFAULT_SELF_HEALING_OPTIONS_def PLATFORM_FAILURE_PATTERNS_def)
  then have "check_patterns mixed_log (allPatterns DEFAULT_SELF_HEALING_OPTIONS) []
      = [assertion_failure, memory_failure]"
    by (simp only: check_patterns_concat mixed_log_common mixed_log_github append_Nil2)
  then show ?thesis
    by (simp add: detectedFailures_def)
qed

lemma mixed_log_sorted:
  "sortFailuresBySeverity [assertion_failure, memory_failure]
     = [memory_failure, assertion_failure]"
  by (simp add: sortFailuresBySeverity_def Array_sort_def assertion_failure_def
      memory_failure_def)

section \<open>The analyzer\<close>

lemma analyzeFailure_no_match:
  assumes "\<forall>p\<in>set (allPatterns this). \<forall>r\<in>set (patterns p). String_match log r = None"
  shows "analyzeFailure this log =
     [\<lparr>DetectedFailure.type = UNKNOWN,
       DetectedFailure.severity = MEDIUM,
       message = js ''Unknown failure'',
       matchedPattern = [],
       DetectedFailure.description = ''Could not determine the specific cause of failure'',
       location = None\<rparr>]"
proof -
  from assms have "check_patterns log (allPatterns this) [] = []"
    by (rule check_patterns_no_match)
  then show ?thesis
    by (simp add: analyzeFailure_def sortFailuresBySeverity_def detectedFailures_def
        Array_sort_def)
qed

text \<open>
  Claim C1. For every log, the empty one included, \<open>analyzeFailure\<close> returns a
  list that is not empty; and when no matcher of any pattern of the catalog matches the
  log, the list has exactly one failure, of type Unknown and of severity Medium.
\<close>

theorem analyzeFailure_nonempty:
  "analyzeFailure this log \<noteq> []
   \<and> ((\<forall>p\<in>set (allPatterns this). \<forall>r\<in>set (patterns p). String_match log r = None)
        \<longrightarrow> (\<exists>f. analyzeFailure this log = [f]
                  \<and> DetectedFailure.type f = UNKNOWN
                  \<and> DetectedFailure.severity f = MEDIUM))"
proof -
  have "detectedFailures this log \<noteq> []"
    by (simp add: detectedFailures_def Let_def)
  then have "length (analyzeFailure this log) \<noteq> 0"
    by (simp add: analyzeFailure_def sortFailuresBySeverity_def length_Array_sort)
  then have nonempty: "analyzeFailure this log \<noteq> []" by simp
  have "\<exists>f. analyzeFailure this log = [f]
          \<and> DetectedFailure.type f = UNKNOWN \<and> DetectedFailure.severity f = MEDIUM"
    if "\<forall>p\<in>set (allPatterns this). \<forall>r\<in>set (patterns p). String_match log r = None"
  proof -
    from that have "check_patterns log (allPatterns this) [] = []"
      by (rule check_patterns_no_match)
    then show ?thesis
      by (simp add: analyzeFailure_def sortFailuresBySeverity_def detectedFailures_def
          Array_sort_def)
  qed
  with nonempty show ?thesis by blast
qed

text \<open>The empty log, which no matcher of the catalog matches.\<close>

theorem analyzeFailure_nonempty_witness:
  "list_all (\<lambda>p. list_all (\<lambda>r. String_match (js '''') r = None) (patterns p))
     (allPatterns DEFAULT_SELF_HEALING_OPTIONS)
   \<and> analyzeFailure DEFAULT_SELF_HEALING_OPTIONS (js '''') \<noteq> []
   \<and> length (analyzeFailure DEFAULT_SELF_HEALING_OPTIONS (js '''')) = 1
   \<and> DetectedFailure.type (hd (analyzeFailure DEFAULT_SELF_HEALING_OPTIONS (js ''''))) = UNKNOWN
   \<and> DetectedFailure.severity (hd (analyzeFailure DEFAULT_SELF_HEALING_OPTIONS (js '''')))
       = MEDIUM"
  using analyzeFailure_nonempty [of DEFAULT_SELF_HEALING_OPTIONS "js ''''"] empty_log_no_match
  by (auto simp: js_def list_all_iff)

text \<open>
  Claim C3. For every log, the list that \<open>analyzeFailure\<close> returns is ordered by
  severity, Critical before High before Medium before Low, and the sort is stable: the
  failures of one severity are, in this order, those of the list before the sort, which
  holds the failures in the order in which the matchers were evaluated.
\<close>

theorem analyzeFailure_sorted_stable:
  "sorted_wrt
     (\<lambda>a b. severityOrder (DetectedFailure.severity a) \<le> severityOrder (DetectedFailure.severity b))
     (analyzeFailure this log)
   \<and> (\<forall>s. filter (\<lambda>f. DetectedFailure.severity f = s) (analyzeFailure this log)
            = filter (\<lambda>f. DetectedFailure.severity f = s) (detectedFailures this log))"
proof -
  let ?k = "\<lambda>f. severityOrder (DetectedFailure.severity f)"
  let ?cmp = "\<lambda>a b. ?k a - ?k b"
  have key: "\<And>a b. (?cmp a b \<le> 0) = (?k a \<le> ?k b)" by simp
  have sorted: "sorted_wrt (\<lambda>a b. ?k a \<le> ?k b) (Array_sort ?cmp (detectedFailures this log))"
    by (rule sorted_Array_sort [of ?cmp ?k, OF key])
  have stable: "filter (\<lambda>f. DetectedFailure.severity f = s) (Array_sort ?cmp (detectedFailures this log))
      = filter (\<lambda>f. DetectedFailure.severity f = s) (detectedFailures this log)" for s
    using filter_Array_sort [of ?cmp ?k "severityOrder s", OF key]
    by (simp add: severityOrder_inj)
  show ?thesis
    unfolding analyzeFailure_def sortFailuresBySeverity_def
    using sorted stable by blast
qed

text \<open>
  A log in which the assertion pattern fires before the memory pattern: the memory
  failure, of severity High, is returned before the assertion failure, of severity
  Medium.
\<close>

theorem analyzeFailure_sorted_stable_witness:
  "detectedFailures DEFAULT_SELF_HEALING_OPTIONS mixed_log = [assertion_failure, memory_failure]
   \<and> analyzeFailure DEFAULT_SELF_HEALING_OPTIONS mixed_log = [memory_failure, assertion_failure]
   \<and> sorted_wrt
       (\<lambda>a b. severityOrder (DetectedFailure.severity a)
                \<le> severityOrder (DetectedFailure.severity b))
       [memory_failure, assertion_failure]
   \<and> filter (\<lambda>f. DetectedFailure.severity f = HIGH) [memory_failure, assertion_failure]
       = filter (\<lambda>f. DetectedFailure.severity f = HIGH) [assertion_failure, memory_failure]"
proof -
  have result: "analyzeFailure DEFAULT_SELF_HEALING_OPTIONS mixed_log
      = [memory_failure, assertion_failure]"
    by (simp only: analyzeFailure_def mixed_log_detected mixed_log_sorted)
  show ?thesis
    using analyzeFailure_sorted_stable [of DEFAULT_SELF_HEALING_OPTIONS mixed_log]
    unfolding result mixed_log_detected by blast
qed

section \<open>Catalog severities\<close>

lemma common_pattern_severities:
  "\<forall>p\<in>set FAILURE_PATTERNS. FailurePattern.severity p \<in> {HIGH, MEDIUM, LOW}"
  by (simp add: FAILURE_PATTERNS_def)

lemma platform_pattern_severities:
  "PLATFORM_FAILURE_PATTERNS pl = Some ps
     \<Longrightarrow> \<forall>p\<in>set ps. FailurePattern.severity p \<in> {HIGH, MEDIUM, LOW}"
  by (cases pl)
     (auto simp: PLATFORM_FAILURE_PATTERNS_def github_FAILURE_PATTERNS_def
        gitlab_FAILURE_PATTERNS_def circleci_FAILURE_PATTERNS_def aws_FAILURE_PATTERNS_def)

lemma allPatterns_severities:
  "\<forall>p\<in>set (allPatterns this). FailurePattern.severity p \<in> {HIGH, MEDIUM, LOW}"
proof (cases "PLATFORM_FAILURE_PATTERNS (platform this)")
  case None
  then show ?thesis
    using common_pattern_severities by (simp add: allPatterns_def)
next
  case (Some ps)
  then have "set (allPatterns this) = set FAILURE_PATTERNS \<union> set ps"
    by (simp add: allPatterns_def)
  then show ?thesis
    using common_pattern_severities platform_pattern_severities [OF Some] by blast
qed

lemma base_confidence_not_critical:
  "s \<in> {HIGH, MEDIUM, LOW} \<Longrightarrow> base_confidence s \<noteq> 90"
  by auto

text \<open>
  Claim C9. Every pattern of the catalog, in the common set and in the set of each
  platform, has the severity High, Medium or Low, none is Critical. So for every log and
  every configured platform each failure that \<open>analyzeFailure\<close> returns has one of
  these three severities, and the base confidence 90 of Critical is never taken for it.
\<close>

theorem no_critical_failure:
  "(\<forall>p\<in>set FAILURE_PATTERNS. FailurePattern.severity p \<in> {HIGH, MEDIUM, LOW})
   \<and> (\<forall>pl ps. PLATFORM_FAILURE_PATTERNS pl = Some ps
         \<longrightarrow> (\<forall>p\<in>set ps. FailurePattern.severity p \<in> {HIGH, MEDIUM, LOW}))
   \<and> (\<forall>f\<in>set (analyzeFailure this log).
         DetectedFailure.severity f \<in> {HIGH, MEDIUM, LOW}
         \<and> base_confidence (DetectedFailure.severity f) \<noteq> 90)"
proof -
  have "DetectedFailure.severity f \<in> {HIGH, MEDIUM, LOW}"
    if "f \<in> set (detectedFailures this log)" for f
  proof (cases "check_patterns log (allPatterns this) [] = []")
    case True
    with that show ?thesis by (simp add: detectedFailures_def)
  next
    case False
    with that have "f \<in> set (check_patterns log (allPatterns this) [])"
      by (simp add: detectedFailures_def)
    then show ?thesis
      using check_patterns_severity [of f log "allPatterns this"] allPatterns_severities [of this]
      by auto
  qed
  then have "\<forall>f\<in>set (analyzeFailure this log).
         DetectedFailure.severity f \<in> {HIGH, MEDIUM, LOW}
         \<and> base_confidence (DetectedFailure.severity f) \<noteq> 90"
    using base_confidence_not_critical
    by (simp add: analyzeFailure_def sortFailuresBySeverity_def set_Array_sort)
  then show ?thesis
    using common_pattern_severities platform_pattern_severities by blast
qed

text \<open>
  The catalog for github, and the analysis of the empty log, whose one failure has the
  severity Medium.
\<close>

theorem no_critical_failure_witness:
  "hd FAILURE_PATTERNS \<in> set FAILURE_PATTERNS
   \<and> FailurePattern.severity (hd FAILURE_PATTERNS) \<in> {HIGH, MEDIUM, LOW}
   \<and> PLATFORM_FAILURE_PATTERNS github = Some github_FAILURE_PATTERNS
   \<and> hd github_FAILURE_PATTERNS \<in> set github_FAILURE_PATTERNS
   \<and> FailurePattern.severity (hd github_FAILURE_PATTERNS) \<in> {HIGH, MEDIUM, LOW}
   \<and> hd (analyzeFailure DEFAULT_SELF_HEALING_OPTIONS [])
       \<in> set (analyzeFailure DEFAULT_SELF_HEALING_OPTIONS [])
   \<and> DetectedFailure.severity (hd (analyzeFailure DEFAULT_SELF_HEALING_OPTIONS []))
       \<in> {HIGH, MEDIUM, LOW}
   \<and> base_confidence (DetectedFailure.severity (hd (analyzeFailure DEFAULT_SELF_HEALING_OPTIONS [])))
       \<noteq> 90"
proof -
  have common: "hd FAILURE_PATTERNS \<in> set FAILURE_PATTERNS"
    by (simp add: FAILURE_PATTERNS_def)
  have overlay: "PLATFORM_FAILURE_PATTERNS github = Some github_FAILURE_PATTERNS"
    by (simp add: PLATFORM_FAILURE_PATTERNS_def)
  have gh: "hd github_FAILURE_PATTERNS \<in> set github_FAILURE_PATTERNS"
    by (simp add: github_FAILURE_PATTERNS_def)
  have res: "hd (analyzeFailure DEFAULT_SELF_HEALING_OPTIONS [])
      \<in> set (analyzeFailure DEFAULT_SELF_HEALING_OPTIONS [])"
    by (simp add: analyzeFailure_no_match [OF empty_log_no_match])
  show ?thesis
    using no_critical_failure [of DEFAULT_SELF_HEALING_OPTIONS "[]"] common overlay gh res
    by blast
qed

section \<open>Confidence\<close>

lemma calculateConfidence_spec: "calculateConfidence f fxs = spec_confidence f fxs"
  by (cases "DetectedFailure.severity f")
     (simp_all add: calculateConfidence_def spec_confidence_def Let_def)

lemma spec_confidence_range: "0 \<le> spec_confidence f fxs \<and> spec_confidence f fxs \<le> 100"
  by (simp add: spec_confidence_def)

lemma suggestFixes_map:
  "suggestFixes this failures =
     map (\<lambda>f. \<lparr>failure = f,
                fixes = getFixesForFailure this f,
                autoFixPossible = list_ex (\<lambda>fix. truthy (fixScript fix)) (getFixesForFailure this f),
                confidence = calculateConfidence f (getFixesForFailure this f)\<rparr>) failures"
  by (induction failures) (simp_all add: Let_def)

text \<open>
  Claim C2. For every failure and the list of fixes retrieved for it, \<open>suggestFixes\<close>
  computes the confidence as the base value of the severity (90 for Critical, 75 for
  High, 60 for Medium, 40 for Low; the enumeration has no other severity, for which the
  code would take 30), less 20 when the list of fixes is empty, less 10 when it has more
  than 3 elements, less 30 when the type of the failure is Unknown, plus 10 when some fix
  of the list is platform-specific, clamped to the interval from 0 to 100.
\<close>

theorem suggestFixes_confidence:
  "calculateConfidence f fxs = spec_confidence f fxs
   \<and> suggestFixes this failures =
       map (\<lambda>f. \<lparr>failure = f,
                  fixes = getFixesForFailure this f,
                  autoFixPossible =
                    list_ex (\<lambda>fix. truthy (fixScript fix)) (getFixesForFailure this f),
                  confidence = spec_confidence f (getFixesForFailure this f)\<rparr>) failures"
  by (simp add: suggestFixes_map calculateConfidence_spec)

lemma build_suggestion:
  "suggestFixes DEFAULT_SELF_HEALING_OPTIONS [build_failure] =
     [\<lparr>failure = build_failure,
       fixes = filter (\<lambda>fix. FailureFix.type fix = BUILD) COMMON_FIXES,
       autoFixPossible = True,
       confidence = 75\<rparr>]"
  by (simp add: getFixesForFailure_def calculateConfidence_def build_failure_def
      DEFAULT_SELF_HEALING_OPTIONS_def PLATFORM_FIXES_def github_FIXES_def COMMON_FIXES_def
      truthy_def Let_def)

text \<open>A build failure of severity High, with its three fixes: the confidence is 75.\<close>

theorem suggestFixes_confidence_witness:
  "map confidence (suggestFixes DEFAULT_SELF_HEALING_OPTIONS [build_failure]) = [75]
   \<and> spec_confidence build_failure (getFixesForFailure DEFAULT_SELF_HEALING_OPTIONS build_failure)
       = 75"
proof -
  have "suggestFixes DEFAULT_SELF_HEALING_OPTIONS [build_failure] =
       map (\<lambda>f. \<lparr>failure = f,
                  fixes = getFixesForFailure DEFAULT_SELF_HEALING_OPTIONS f,
                  autoFixPossible =
                    list_ex (\<lambda>fix. truthy (fixScript fix))
                      (getFixesForFailure DEFAULT_SELF_HEALING_OPTIONS f),
                  confidence =
                    spec_confidence f (getFixesForFailure DEFAULT_SELF_HEALING_OPTIONS f)\<rparr>)
         [build_failure]"
    using suggestFixes_confidence [of build_failure "[]" DEFAULT_SELF_HEALING_OPTIONS
        "[build_failure]"]
    by (rule conjunct2)
  then show ?thesis
    unfolding build_suggestion by simp
qed

lemma no_common_fix_for_unknown:
  "filter (\<lambda>fix. FailureFix.type fix = UNKNOWN) COMMON_FIXES = []"
  by (simp add: COMMON_FIXES_def)

lemma no_platform_fix_for_unknown:
  "PLATFORM_FIXES p = Some pfs \<Longrightarrow> filter (\<lambda>fix. FailureFix.type fix = UNKNOWN \<and> P fix) pfs = []"
  by (cases p)
     (auto simp: PLATFORM_FIXES_def github_FIXES_def aws_FIXES_def gitlab_FIXES_def
        circleci_FIXES_def)

lemma no_fix_for_unknown:
  "DetectedFailure.type f = UNKNOWN \<Longrightarrow> getFixesForFailure this f = []"
  by (auto simp: getFixesForFailure_def Let_def no_common_fix_for_unknown
      no_platform_fix_for_unknown split: option.splits)

lemma confidence_of_unknown:
  assumes "DetectedFailure.type f = UNKNOWN"
  shows "spec_confidence f [] \<le> 60"
    and "DetectedFailure.severity f = LOW \<Longrightarrow> spec_confidence f [] = 0"
  using assms by (cases "DetectedFailure.severity f"; simp add: spec_confidence_def)+

lemma unknown_suggestion:
  "suggestFixes this
     [\<lparr>DetectedFailure.type = UNKNOWN,
       DetectedFailure.severity = MEDIUM,
       message = m, matchedPattern = mp, DetectedFailure.description = d, location = l\<rparr>] =
     [\<lparr>failure =
        \<lparr>DetectedFailure.type = UNKNOWN,
         DetectedFailure.severity = MEDIUM,
         message = m, matchedPattern = mp, DetectedFailure.description = d, location = l\<rparr>,
       fixes = [],
       autoFixPossible = False,
       confidence = 10\<rparr>]"
  by (simp add: no_fix_for_unknown calculateConfidence_def Let_def)

text \<open>
  Claim C7. For every failure of type Unknown, of any severity, the confidence that
  \<open>suggestFixes\<close> computes is at most 60; for every failure at all it lies between 0
  and 100; and for a failure of type Unknown and severity Low no fix is retrieved and the
  confidence, which would be negative, is exactly 0.
\<close>

theorem unknown_confidence:
  "\<forall>s\<in>set (suggestFixes this failures).
      0 \<le> confidence s \<and> confidence s \<le> 100
      \<and> (DetectedFailure.type (failure s) = UNKNOWN \<longrightarrow> confidence s \<le> 60)
      \<and> (DetectedFailure.type (failure s) = UNKNOWN \<and> DetectedFailure.severity (failure s) = LOW
           \<longrightarrow> fixes s = [] \<and> confidence s = 0)"
proof
  fix s
  assume "s \<in> set (suggestFixes this failures)"
  then obtain f where s: "s = \<lparr>failure = f,
                fixes = getFixesForFailure this f,
                autoFixPossible = list_ex (\<lambda>fix. truthy (fixScript fix)) (getFixesForFailure this f),
                confidence = spec_confidence f (getFixesForFailure this f)\<rparr>"
    unfolding suggestFixes_map calculateConfidence_spec by auto
  show "0 \<le> confidence s \<and> confidence s \<le> 100
      \<and> (DetectedFailure.type (failure s) = UNKNOWN \<longrightarrow> confidence s \<le> 60)
      \<and> (DetectedFailure.type (failure s) = UNKNOWN \<and> DetectedFailure.severity (failure s) = LOW
           \<longrightarrow> fixes s = [] \<and> confidence s = 0)"
    using spec_confidence_range [of f "getFixesForFailure this f"]
      no_fix_for_unknown [of f this] confidence_of_unknown [of f]
    by (auto simp: s)
qed

text \<open>The unknown failure of low severity: no fix, confidence 0.\<close>

theorem unknown_confidence_witness:
  "suggestFixes DEFAULT_SELF_HEALING_OPTIONS [low_unknown] =
     [\<lparr>failure = low_unknown, fixes = [], autoFixPossible = False, confidence = 0\<rparr>]
   \<and> DetectedFailure.type low_unknown = UNKNOWN
   \<and> DetectedFailure.severity low_unknown = LOW"
proof -
  let ?s = "\<lparr>failure = low_unknown,
             fixes = getFixesForFailure DEFAULT_SELF_HEALING_OPTIONS low_unknown,
             autoFixPossible =
               list_ex (\<lambda>fix. truthy (fixScript fix))
                 (getFixesForFailure DEFAULT_SELF_HEALING_OPTIONS low_unknown),
             confidence =
               calculateConfidence low_unknown
                 (getFixesForFailure DEFAULT_SELF_HEALING_OPTIONS low_unknown)\<rparr>"
  have sg: "suggestFixes DEFAULT_SELF_HEALING_OPTIONS [low_unknown] = [?s]"
    by (simp add: Let_def)
  have low: "DetectedFailure.type low_unknown = UNKNOWN \<and> DetectedFailure.severity low_unknown = LOW"
    by (simp add: low_unknown_def)
  have mem: "?s \<in> set (suggestFixes DEFAULT_SELF_HEALING_OPTIONS [low_unknown])"
    unfolding sg by simp
  have "DetectedFailure.type (failure ?s) = UNKNOWN \<and> DetectedFailure.severity (failure ?s) = LOW
      \<longrightarrow> fixes ?s = [] \<and> confidence ?s = 0"
    using bspec [OF unknown_confidence [of DEFAULT_SELF_HEALING_OPTIONS "[low_unknown]"] mem]
    by blast
  moreover have "failure ?s = low_unknown"
    by simp
  ultimately have both: "fixes ?s = [] \<and> confidence ?s = 0"
    using low by metis
  from both have f0: "fixes ?s = []"
    by (rule conjunct1)
  from both have c0: "confidence ?s = 0"
    by (rule conjunct2)
  have fx: "getFixesForFailure DEFAULT_SELF_HEALING_OPTIONS low_unknown = []"
    using f0 by simp
  have cf: "calculateConfidence low_unknown [] = 0"
    using c0 by (simp add: fx)
  show ?thesis
    unfolding sg fx using cf low by simp
qed

section \<open>The test-failure scenario\<close>

text \<open>
  Claim C4, as it is stated: for the log
  \<open>FAIL src/x.test.js ... expect(fn()).toHaveBeenCalledTimes(1)\<close>, the platform github
  and the default options, \<open>analyzeFailure\<close> returns exactly one failure, of type Test
  and severity Medium, and \<open>suggestFixes\<close> on it returns no automatic fix and a
  confidence between 40 and 70. This fails: no pattern of the catalog matches the log.
\<close>

theorem scenario_counterexample:
  "\<not> (length (analyzeFailure DEFAULT_SELF_HEALING_OPTIONS scenario_log) = 1
      \<and> DetectedFailure.type (analyzeFailure DEFAULT_SELF_HEALING_OPTIONS scenario_log ! 0) = TEST
      \<and> DetectedFailure.severity (analyzeFailure DEFAULT_SELF_HEALING_OPTIONS scenario_log ! 0)
          = MEDIUM
      \<and> \<not> autoFixPossible
            (suggestFixes DEFAULT_SELF_HEALING_OPTIONS
               (analyzeFailure DEFAULT_SELF_HEALING_OPTIONS scenario_log) ! 0)
      \<and> 40 \<le> confidence
            (suggestFixes DEFAULT_SELF_HEALING_OPTIONS
               (analyzeFailure DEFAULT_SELF_HEALING_OPTIONS scenario_log) ! 0)
      \<and> confidence
            (suggestFixes DEFAULT_SELF_HEALING_OPTIONS
               (analyzeFailure DEFAULT_SELF_HEALING_OPTIONS scenario_log) ! 0) \<le> 70)"
  by (simp add: analyzeFailure_no_match [OF scenario_no_match])

text \<open>
  Claim C4, amended. For this log, the platform github and the default options,
  \<open>analyzeFailure\<close> returns exactly one failure, of type Unknown and severity Medium,
  with the message \<open>Unknown failure\<close>; \<open>suggestFixes\<close> on it returns no fix, no
  automatic fix and the confidence 10.
\<close>

theorem scenario_unknown:
  "platform DEFAULT_SELF_HEALING_OPTIONS = github
   \<and> analyzeFailure DEFAULT_SELF_HEALING_OPTIONS scenario_log =
     [\<lparr>DetectedFailure.type = UNKNOWN,
       DetectedFailure.severity = MEDIUM,
       message = js ''Unknown failure'',
       matchedPattern = [],
       DetectedFailure.description = ''Could not determine the specific cause of failure'',
       location = None\<rparr>]
   \<and> suggestFixes DEFAULT_SELF_HEALING_OPTIONS
       (analyzeFailure DEFAULT_SELF_HEALING_OPTIONS scenario_log) =
     [\<lparr>failure =
        \<lparr>DetectedFailure.type = UNKNOWN,
         DetectedFailure.severity = MEDIUM,
         message = js ''Unknown failure'',
         matchedPattern = [],
         DetectedFailure.description = ''Could not determine the specific cause of failure'',
         location = None\<rparr>,
       fixes = [],
       autoFixPossible = False,
       confidence = 10\<rparr>]"
proof -
  have "platform DEFAULT_SELF_HEALING_OPTIONS = github"
    by (simp add: DEFAULT_SELF_HEALING_OPTIONS_def)
  then show ?thesis
    by (simp add: analyzeFailure_no_match [OF scenario_no_match] unknown_suggestion
        del: suggestFixes.simps)
qed

section \<open>Applying a fix\<close>

lemma find_build_script:
  "find (\<lambda>f. truthy (fixScript f)) (filter (\<lambda>fix. FailureFix.type fix = BUILD) COMMON_FIXES)
     = Some (COMMON_FIXES ! 5)"
  by (simp add: COMMON_FIXES_def truthy_def)

lemma attemptFix_exec_rejects:
  assumes "autoFixPossible sg"
    and "find (\<lambda>f. truthy (fixScript f)) (fixes sg) = Some fix"
    and "fixScript fix = Some script" and "script \<noteq> []"
    and "writeFile_throws env = None" and "chmod_throws env = None"
    and "exec_outcome env = Inl e"
    and "exec_effect env ((files w)(scriptFile env \<mapsto> script)) (scriptFile env) = Some script"
  shows "\<not> success (fst (attemptFix this sg wd env w))
    \<and> files (snd (attemptFix this sg wd env w)) (scriptFile env) = Some script"
  using assms
  by (simp add: attemptFix_def try_fix_def fs_writeFile_def fs_chmod_def execAsync_def
      logFixAttempt_def Let_def)

lemma attemptFix_success_removes:
  assumes "autoFixPossible sg"
    and "find (\<lambda>f. truthy (fixScript f)) (fixes sg) = Some fix"
    and "fixScript fix = Some script" and "script \<noteq> []"
    and "writeFile_throws env = None" and "chmod_throws env = None"
    and "exec_outcome env = Inr (out, err)"
    and "remove_throws env = None"
  shows "success (fst (attemptFix this sg wd env w))
    \<and> files (snd (attemptFix this sg wd env w)) (scriptFile env) = None"
  using assms
  by (simp add: attemptFix_def try_fix_def fs_writeFile_def fs_chmod_def execAsync_def
      fs_remove_def logFixAttempt_def Let_def)

text \<open>
  Claim C5. The temporary script that \<open>attemptFix\<close> writes is removed before it returns,
  also when the execution of the script fails. The code removes the file after a
  successful execution only: for the suggestion for a build failure, whose third fix
  carries a script, and an environment in which the script exits with an error, the call
  returns without success and the script file, absent before the call, exists after it
  with the script as its content.
\<close>

theorem attemptFix_leaves_script:
  "autoFixPossible (hd (suggestFixes DEFAULT_SELF_HEALING_OPTIONS [build_failure]))
   \<and> files empty_world (scriptFile failing_env) = None
   \<and> \<not> success (fst (attemptFix DEFAULT_SELF_HEALING_OPTIONS
          (hd (suggestFixes DEFAULT_SELF_HEALING_OPTIONS [build_failure]))
          ''/repo'' failing_env empty_world))
   \<and> files (snd (attemptFix DEFAULT_SELF_HEALING_OPTIONS
          (hd (suggestFixes DEFAULT_SELF_HEALING_OPTIONS [build_failure]))
          ''/repo'' failing_env empty_world)) (scriptFile failing_env)
       = fixScript (COMMON_FIXES ! 5)
   \<and> fixScript (COMMON_FIXES ! 5) \<noteq> None"
proof -
  let ?sg = "\<lparr>failure = build_failure,
       fixes = filter (\<lambda>fix. FailureFix.type fix = BUILD) COMMON_FIXES,
       autoFixPossible = True,
       confidence = 75\<rparr>"
  have sg: "hd (suggestFixes DEFAULT_SELF_HEALING_OPTIONS [build_failure]) = ?sg"
    by (simp only: build_suggestion list.sel)
  have script: "fixScript (COMMON_FIXES ! 5) \<noteq> None"
    by (simp add: COMMON_FIXES_def)
  then obtain script where s: "fixScript (COMMON_FIXES ! 5) = Some script" by blast
  have ne: "script \<noteq> []"
    using s by (auto simp: COMMON_FIXES_def)
  have found: "find (\<lambda>f. truthy (fixScript f)) (fixes ?sg) = Some (COMMON_FIXES ! 5)"
    by (simp add: find_build_script)
  have "\<not> success (fst (attemptFix DEFAULT_SELF_HEALING_OPTIONS ?sg ''/repo'' failing_env
            empty_world))
    \<and> files (snd (attemptFix DEFAULT_SELF_HEALING_OPTIONS ?sg ''/repo'' failing_env
            empty_world)) (scriptFile failing_env) = Some script"
    by (rule attemptFix_exec_rejects [OF _ found s ne])
       (simp_all add: failing_env_def empty_world_def)
  moreover have "files empty_world (scriptFile failing_env) = None"
    by (simp add: empty_world_def)
  ultimately show ?thesis
    unfolding sg using s by simp
qed

end
